(* ===== verification/Prelude.thy ===== *)
theory Prelude
  imports Complex_Main "HOL-Library.Multiset" "HOL-Library.Sublist"
begin

text \<open>
  Shared vocabulary of the development: the types that name timestamps and row ids,
  the ordering and limiting of query results (\<open>ORDER BY ... DESC LIMIT n\<close>), the
  first-failing-check combinator used for MySQL column checks, and the generic list
  lemmas the component theories share.
\<close>

type_synonym timestamp = int \<comment> \<open>milliseconds since the epoch, as \<open>Date.getTime()\<close>\<close>
type_synonym row_id = int

named_theorems query_simps "equations that evaluate the query helpers"

subsection \<open>Query results: ORDER BY ... DESC and LIMIT\<close>

text \<open>
  \<open>ORDER BY k DESC\<close> sorts by a key; MySQL leaves the order of equal keys open, and
  the model keeps them in table (insertion) order. Properties below are stated so that
  they do not depend on that choice.
\<close>

definition order_desc :: "('r \<Rightarrow> int) \<Rightarrow> 'r list \<Rightarrow> 'r list" where
  "order_desc k rs = sort_key (\<lambda>r. - k r) rs"

declare order_desc_def [query_simps]

definition sorted_desc :: "('r \<Rightarrow> int) \<Rightarrow> 'r list \<Rightarrow> bool" where
  "sorted_desc k rs \<longleftrightarrow> sorted_wrt (\<lambda>a b. k b \<le> k a) rs"

lemma mset_order_desc [simp]: "mset (order_desc k rs) = mset rs"
  by (simp add: order_desc_def)

lemma set_order_desc [simp]: "set (order_desc k rs) = set rs"
  by (simp add: order_desc_def)

lemma length_order_desc [simp]: "length (order_desc k rs) = length rs"
  by (simp add: order_desc_def)

lemma order_desc_Nil [simp]: "order_desc k [] = []"
  by (simp add: order_desc_def)

lemma order_desc_Nil_iff [simp]: "order_desc k rs = [] \<longleftrightarrow> rs = []"
  by (metis length_0_conv length_order_desc)

lemma sorted_desc_order_desc: "sorted_desc k (order_desc k rs)"
proof -
  have "sorted (map (\<lambda>r. - k r) (sort_key (\<lambda>r. - k r) rs))"
    by (rule sorted_sort_key)
  then show ?thesis
    by (simp add: sorted_desc_def order_desc_def sorted_map)
qed

lemma sorted_desc_take: "sorted_desc k rs \<Longrightarrow> sorted_desc k (take n rs)"
  by (simp add: sorted_desc_def sorted_wrt_take)

lemma sorted_desc_Cons_max:
  "sorted_desc k (r # rs) \<Longrightarrow> x \<in> set (r # rs) \<Longrightarrow> k x \<le> k r"
  by (auto simp: sorted_desc_def)

text \<open>The first row of a descending order has the greatest key of all rows.\<close>

lemma order_desc_Cons_max:
  assumes "order_desc k rs = r # rest" and "x \<in> set rs"
  shows "k x \<le> k r"
proof -
  have "x \<in> set (r # rest)" using assms by (metis set_order_desc)
  then show ?thesis
    using sorted_desc_order_desc [of k rs] assms(1) by (metis sorted_desc_Cons_max)
qed

lemma order_desc_Cons_mem:
  "order_desc k rs = r # rest \<Longrightarrow> r \<in> set rs"
  by (metis list.set_intros(1) set_order_desc)

subsection \<open>Checks that stop at the first failure\<close>

text \<open>MySQL checks the columns of a row in order and reports the first one that fails.\<close>

fun first_error :: "(bool \<times> 'e) list \<Rightarrow> 'e option" where
  "first_error [] = None"
| "first_error ((ok, e) # cs) = (if ok then first_error cs else Some e)"

lemma first_error_None_iff [simp]:
  "first_error cs = None \<longleftrightarrow> (\<forall>c \<in> set cs. fst c)"
  by (induction cs rule: first_error.induct) auto

lemma first_error_Some_mem:
  "first_error cs = Some e \<Longrightarrow> (False, e) \<in> set cs"
  by (induction cs rule: first_error.induct) (simp_all split: if_splits)

subsection \<open>Lists updated in place\<close>

lemma map_the_filter_map:
  assumes "\<And>x. x \<in> set xs \<Longrightarrow> f x = None \<longleftrightarrow> \<not> P x"
    and "\<And>x y. x \<in> set xs \<Longrightarrow> f x = Some y \<Longrightarrow> g y = h x"
  shows "map g (map the (filter (\<lambda>y. y \<noteq> None) (map f xs))) = map h (filter P xs)"
  using assms
proof (induction xs)
  case Nil
  then show ?case by simp
next
  case (Cons a xs)
  have ih: "map g (map the (filter (\<lambda>y. y \<noteq> None) (map f xs))) = map h (filter P xs)"
    using Cons.prems by (intro Cons.IH) auto
  show ?case
  proof (cases "f a")
    case None
    with Cons.prems(1) [of a] ih show ?thesis by simp
  next
    case (Some y)
    with Cons.prems(1) [of a] Cons.prems(2) [of a y] ih show ?thesis by simp
  qed
qed

lemma order_desc_snoc_max:
  assumes "\<forall>y \<in> set xs. k y < k x"
  shows "\<exists>rest. order_desc k (xs @ [x]) = x # rest"
proof (cases "order_desc k (xs @ [x])")
  case Nil
  then show ?thesis by simp
next
  case (Cons r rest)
  have "k x \<le> k r" using order_desc_Cons_max [OF Cons] by simp
  moreover have "r \<in> set (xs @ [x])" using order_desc_Cons_mem [OF Cons] .
  ultimately have "r = x" using assms by auto
  with Cons show ?thesis by simp
qed

lemma find_map_the_filter:
  assumes "distinct (map key xs)" "x \<in> set xs"
    and "\<And>y v. y \<in> set xs \<Longrightarrow> f y = Some v \<Longrightarrow> g v = key y"
  shows "find (\<lambda>v. g v = key x) (map the (filter (\<lambda>v. v \<noteq> None) (map f xs))) = f x"
  using assms
proof (induction xs)
  case (Cons y ys)
  show ?case
  proof (cases "y = x")
    case True
    have "g v \<noteq> key x" if "v \<in> set (map the (filter (\<lambda>v. v \<noteq> None) (map f ys)))" for v
    proof -
      from that obtain w where w: "w \<in> set (map f ys)" "w \<noteq> None" "v = the w" by auto
      then obtain z where z: "z \<in> set ys" "f z = Some v" by auto
      then have gz: "g v = key z" using Cons.prems(3) by simp
      have "key z \<in> key ` set ys" using z(1) by simp
      moreover have "key x \<notin> key ` set ys" using Cons.prems(1) True by simp
      ultimately show ?thesis using gz by metis
    qed
    then have none: "find (\<lambda>v. g v = key x) (map the (filter (\<lambda>v. v \<noteq> None) (map f ys))) = None"
      unfolding find_None_iff by blast
    show ?thesis
      using Cons.prems True none by (cases "f y") auto
  next
    case False
    then have x: "x \<in> set ys" "key y \<noteq> key x" using Cons.prems by auto
    have ih: "find (\<lambda>v. g v = key x) (map the (filter (\<lambda>v. v \<noteq> None) (map f ys))) = f x"
      using Cons.IH Cons.prems x(1) by simp
    have "g v \<noteq> key x" if "f y = Some v" for v using Cons.prems(3) [of y v] that x(2) by simp
    then show ?thesis using ih by (cases "f y") auto
  qed
qed simp
lemma length_filter_map_the:
  "length (filter P (map the (filter (\<lambda>v. v \<noteq> None) (map f xs))))
   = length (filter (\<lambda>x. case f x of None \<Rightarrow> False | Some y \<Rightarrow> P y) xs)"
  by (induction xs) (auto split: option.split)

lemma map_ident_on:
  "(\<And>x. x \<in> set xs \<Longrightarrow> f x = x) \<Longrightarrow> map f xs = xs"
  by (induction xs) auto

end
