(* ===== verification/Js.thy ===== *)
theory Js
  imports Prelude
begin

text \<open>
  The JavaScript built-ins the code relies on, with the semantics ECMAScript gives them:
  \<open>Math.round\<close> and \<open>toFixed\<close> (server statistics), \<open>parseInt(s, 10)\<close> and
  \<open>Number.prototype.toString\<close> (the dashboard's stored sidebar width), NaN-propagating
  \<open>Math.min\<close>/\<open>Math.max\<close>, and the truthiness tests of \<open>x ? a : b\<close> and
  \<open>x && <el/>\<close> on nullable numbers and strings. The lemmas show that printing an
  integer and parsing it back gives the integer.
\<close>

subsection \<open>JavaScript numbers\<close>

text \<open>
  The code computes with IEEE doubles; the model computes with exact rationals. The two
  agree except where a double cannot represent a value that sits exactly on a rounding
  boundary (for instance a percentage whose exact value ends in \<open>5\<close> at the third
  decimal): there the double may round the other way by one unit of the last place.
\<close>

text \<open>\<open>Math.round x\<close>: the integer closest to \<open>x\<close>, halves rounded towards
  \<open>+\<infinity>\<close>.\<close>

definition js_round :: "rat \<Rightarrow> int" where
  "js_round x = \<lfloor>x + 1 / 2\<rfloor>"

text \<open>\<open>parseFloat(x.toFixed(2))\<close>: \<open>toFixed\<close> picks the nearest multiple of
  \<open>1/100\<close>, the larger one on a tie, for \<open>x \<ge> 0\<close>, and works on \<open>-x\<close> for a
  negative \<open>x\<close>; \<open>parseFloat\<close> reads the digits back.\<close>

definition to_fixed2 :: "rat \<Rightarrow> rat" where
  "to_fixed2 x =
     (if x < 0 then - (of_int \<lfloor>- x * 100 + 1 / 2\<rfloor> / 100)
      else of_int \<lfloor>x * 100 + 1 / 2\<rfloor> / 100)"

lemma floor_half_div:
  assumes "0 < t"
  shows "\<lfloor>(of_int a / of_int t :: rat) + 1 / 2\<rfloor> = (2 * a + t) div (2 * t)"
proof -
  have "(of_int a / of_int t :: rat) + 1 / 2 = of_int (2 * a + t) / of_int (2 * t)"
    using assms by (simp add: field_simps)
  then show ?thesis by (simp only: floor_divide_of_int_eq)
qed

lemma js_round_div [query_simps]:
  "0 < t \<Longrightarrow> js_round (of_int a / of_int t) = (2 * a + t) div (2 * t)"
  unfolding js_round_def by (rule floor_half_div)

lemma to_fixed2_percent:
  assumes "0 < t" and "0 \<le> s"
  shows "to_fixed2 (of_int s / of_int t * 100) = of_int ((20000 * s + t) div (2 * t)) / 100"
proof -
  have nn: "\<not> (of_int s / of_int t * 100 :: rat) < 0"
    using assms by (simp add: not_less)
  have "(of_int s / of_int t * 100 :: rat) * 100 = of_int (10000 * s) / of_int t"
    by simp
  then have fl: "\<lfloor>(of_int s / of_int t * 100 :: rat) * 100 + 1 / 2\<rfloor> = (20000 * s + t) div (2 * t)"
    using floor_half_div [OF assms(1), of "10000 * s"] by simp
  show ?thesis
    unfolding to_fixed2_def if_not_P [OF nn] fl ..
qed

lemma percent_hundredths_le:
  fixes k t :: int
  assumes t: "0 < t" and k: "k \<le> t"
  shows "(20000 * k + t) div (2 * t) \<le> 10000"
proof -
  let ?q = "(20000 * k + t) div (2 * t)"
  have "?q * (2 * t) + (20000 * k + t) mod (2 * t) = 20000 * k + t"
    by (rule div_mult_mod_eq)
  moreover have "0 \<le> (20000 * k + t) mod (2 * t)" using t by simp
  ultimately have "?q * (2 * t) < 10001 * (2 * t)" using k t by linarith
  then show ?thesis using t by (simp add: mult_less_cancel_right)
qed

lemma percent_hundredths_full:
  fixes k t :: int
  assumes t: "0 < t" and k: "k \<le> t"
  shows "(20000 * k + t) div (2 * t) = 10000 \<longleftrightarrow> 19999 * t \<le> 20000 * k"
proof
  let ?q = "(20000 * k + t) div (2 * t)"
  assume q: "?q = 10000"
  have "10000 * (2 * t) + (20000 * k + t) mod (2 * t) = 20000 * k + t"
    using div_mult_mod_eq [of "20000 * k + t" "2 * t"] q by simp
  moreover have "0 \<le> (20000 * k + t) mod (2 * t)" using t by simp
  ultimately show "19999 * t \<le> 20000 * k" by linarith
next
  assume le: "19999 * t \<le> 20000 * k"
  have "(10000 * (2 * t)) div (2 * t) \<le> (20000 * k + t) div (2 * t)"
    using le t by (intro zdiv_mono1) simp_all
  then have "10000 \<le> (20000 * k + t) div (2 * t)" using t by simp
  with percent_hundredths_le [OF t k] show "(20000 * k + t) div (2 * t) = 10000" by linarith
qed

subsection \<open>Numbers that may be NaN\<close>

text \<open>A JS number as the dashboard meets it: an integer, or NaN (\<open>parseInt\<close> of a
  string without digits).\<close>

datatype jsnum = Num int | NaN

definition digit_char :: "nat \<Rightarrow> char" where
  "digit_char d = char_of (48 + d)"

fun nat_to_dec :: "nat \<Rightarrow> string" where
  "nat_to_dec n = (if n < 10 then [digit_char n] else nat_to_dec (n div 10) @ [digit_char (n mod 10)])"

declare nat_to_dec.simps [simp del]

text \<open>\<open>String(i)\<close> / \<open>i.toString()\<close> for an integer \<open>i\<close>.\<close>

definition js_int_to_string :: "int \<Rightarrow> string" where
  "js_int_to_string i = (if i < 0 then CHR ''-'' # nat_to_dec (nat (- i)) else nat_to_dec (nat i))"

definition is_dec_digit :: "char \<Rightarrow> bool" where
  "is_dec_digit c \<longleftrightarrow> (48::nat) \<le> of_char c \<and> of_char c < (58::nat)"

definition digit_val :: "char \<Rightarrow> nat" where
  "digit_val c = of_char c - 48"

definition dec_value :: "string \<Rightarrow> nat" where
  "dec_value ds = foldl (\<lambda>a c. 10 * a + digit_val c) 0 ds"

definition is_js_space :: "char \<Rightarrow> bool" where
  "is_js_space c \<longleftrightarrow> c \<in> {CHR '' '', CHR 0x09, CHR 0x0A, CHR 0x0B, CHR 0x0C, CHR 0x0D}"

definition parse_digits :: "int \<Rightarrow> string \<Rightarrow> jsnum" where
  "parse_digits sign s = (case takeWhile is_dec_digit s of [] \<Rightarrow> NaN | ds \<Rightarrow> Num (sign * int (dec_value ds)))"

text \<open>\<open>parseInt(s, 10)\<close>: skip leading white space, read an optional sign and the
  longest run of decimal digits; no digit gives NaN.\<close>

definition parseInt10 :: "string \<Rightarrow> jsnum" where
  "parseInt10 s =
     (case dropWhile is_js_space s of
        c # rest \<Rightarrow> if c = CHR ''-'' then parse_digits (-1) rest
                   else if c = CHR ''+'' then parse_digits 1 rest
                   else parse_digits 1 (c # rest)
      | [] \<Rightarrow> NaN)"

lemma digit_char_props: "d < 10 \<Longrightarrow> is_dec_digit (digit_char d) \<and> digit_val (digit_char d) = d"
  by (simp add: digit_char_def is_dec_digit_def digit_val_def)

lemma nat_to_dec_props:
  "nat_to_dec n \<noteq> [] \<and> (\<forall>c \<in> set (nat_to_dec n). is_dec_digit c) \<and> dec_value (nat_to_dec n) = n"
proof (induction n rule: nat_to_dec.induct)
  case (1 n)
  show ?case
  proof (cases "n < 10")
    case True
    then show ?thesis
      by (simp add: nat_to_dec.simps [of n] dec_value_def digit_char_props)
  next
    case False
    with "1.IH" have ih: "nat_to_dec (n div 10) \<noteq> []" "\<forall>c \<in> set (nat_to_dec (n div 10)). is_dec_digit c"
      "dec_value (nat_to_dec (n div 10)) = n div 10" by auto
    have "dec_value (nat_to_dec (n div 10) @ [digit_char (n mod 10)]) = 10 * (n div 10) + n mod 10"
      using ih(3) by (simp add: dec_value_def digit_char_props)
    with False ih show ?thesis
      by (simp add: nat_to_dec.simps [of n] digit_char_props)
  qed
qed

lemma dec_digit_not_special:
  "is_dec_digit c \<Longrightarrow> \<not> is_js_space c \<and> c \<noteq> CHR ''-'' \<and> c \<noteq> CHR ''+''"
  by (auto simp: is_dec_digit_def is_js_space_def)

lemma parseInt10_js_int_to_string: "parseInt10 (js_int_to_string i) = Num i"
proof -
  obtain ds where ds: "ds = nat_to_dec (nat \<bar>i\<bar>)" by simp
  have p: "ds \<noteq> []" "\<forall>c \<in> set ds. is_dec_digit c" "dec_value ds = nat \<bar>i\<bar>"
    using nat_to_dec_props [of "nat \<bar>i\<bar>"] ds by auto
  have tw: "takeWhile is_dec_digit ds = ds" using p(2) by (simp add: takeWhile_eq_all_conv)
  have hd: "\<not> is_js_space (hd ds)" "hd ds \<noteq> CHR ''-''" "hd ds \<noteq> CHR ''+''"
    using p(1,2) dec_digit_not_special [of "hd ds"] by simp_all
  have minus: "\<not> is_js_space (CHR ''-'')" by (simp add: is_js_space_def)
  show ?thesis
  proof (cases "i < 0")
    case True
    then have "js_int_to_string i = CHR ''-'' # ds" by (simp add: js_int_to_string_def ds)
    with True minus tw p(1,3) show ?thesis
      by (cases ds) (auto simp: parseInt10_def parse_digits_def)
  next
    case False
    then have "js_int_to_string i = ds" by (simp add: js_int_to_string_def ds)
    with False hd tw p(1,3) show ?thesis
      by (cases ds) (auto simp: parseInt10_def parse_digits_def)
  qed
qed

lemma js_int_to_string_not_Nil [simp]: "js_int_to_string i \<noteq> []"
  using nat_to_dec_props by (simp add: js_int_to_string_def)

text \<open>\<open>Math.min\<close>, \<open>Math.max\<close> and \<open>+\<close>: NaN in, NaN out.\<close>

fun js_min :: "jsnum \<Rightarrow> jsnum \<Rightarrow> jsnum" where
  "js_min (Num a) (Num b) = Num (min a b)"
| "js_min _ _ = NaN"

fun js_max :: "jsnum \<Rightarrow> jsnum \<Rightarrow> jsnum" where
  "js_max (Num a) (Num b) = Num (max a b)"
| "js_max _ _ = NaN"

fun js_add :: "jsnum \<Rightarrow> jsnum \<Rightarrow> jsnum" where
  "js_add (Num a) (Num b) = Num (a + b)"
| "js_add _ _ = NaN"

subsection \<open>Truthiness\<close>

text \<open>A nullable number is truthy when present and not 0; a nullable string when present
  and not empty.\<close>

definition truthy_num :: "int option \<Rightarrow> bool" where
  "truthy_num v \<longleftrightarrow> (case v of None \<Rightarrow> False | Some n \<Rightarrow> n \<noteq> 0)"

definition truthy_str :: "string option \<Rightarrow> bool" where
  "truthy_str v \<longleftrightarrow> (case v of None \<Rightarrow> False | Some s \<Rightarrow> s \<noteq> [])"

text \<open>What React renders for \<open>{x && <el/>}\<close> with a nullable number \<open>x\<close>:
  nothing for \<open>null\<close>/\<open>undefined\<close>, the text \<open>0\<close> for 0 (a falsy value that
  React prints), and the element otherwise.\<close>

datatype 'e rendered = Nothing | Zero_text | Elem 'e

definition render_and :: "int option \<Rightarrow> (int \<Rightarrow> 'e) \<Rightarrow> 'e rendered" where
  "render_and v el = (case v of None \<Rightarrow> Nothing | Some n \<Rightarrow> if n = 0 then Zero_text else Elem (el n))"

end
