(* ===== verification/Schema.thy ===== *)
theory Schema
  imports Js
begin

text \<open>
  The four tables of \<open>src/drizzle/schema.ts\<close> as records, one per row type, with the
  column types of the schema: \<open>int\<close> columns are MySQL's signed 32-bit \<open>INT\<close>,
  \<open>varchar(n)\<close> and \<open>text\<close> columns have a length limit, \<open>timestamp\<close> columns
  have second precision and the range 1970-01-01 00:00:01 to 2038-01-19 03:14:07 UTC.
  The store is the four tables with their \<open>AUTO_INCREMENT\<close> counters. MySQL runs in
  its default strict mode, where a value a column cannot hold makes the statement fail.
\<close>

subsection \<open>Rows\<close>

text \<open>\<open>monitoringTargets\<close> (schema.ts lines 6--18).\<close>

record monitoring_target =
  tgt_id :: row_id
  tgt_name :: string
  tgt_url :: string
  tgt_description :: "string option"
  tgt_method :: string
  tgt_checkInterval :: int
  tgt_timeout :: int
  tgt_expectedStatusCode :: int
  tgt_isActive :: int
  tgt_createdAt :: timestamp
  tgt_updatedAt :: timestamp

text \<open>\<open>monitoringChecks\<close> (lines 26--34).\<close>

record monitoring_check =
  chk_id :: row_id
  chk_targetId :: row_id
  chk_statusCode :: "int option"
  chk_responseTime :: "int option"
  chk_isSuccess :: int
  chk_errorMessage :: "string option"
  chk_checkedAt :: timestamp

text \<open>\<open>uptimeHistory\<close> (lines 42--52). The column \<open>period\<close> is a \<open>varchar\<close>; every
  write path and every read path types it as \<open>"daily" | "hourly"\<close>, which the
  datatype \<open>period\<close> records. \<open>uptimePercentage\<close> is a \<open>decimal(5,2)\<close> that the
  code passes and reads back as a string.\<close>

datatype period = Daily | Hourly

record uptime_history =
  uh_id :: row_id
  uh_targetId :: row_id
  uh_period :: period
  uh_timestamp :: timestamp
  uh_totalChecks :: int
  uh_successfulChecks :: int
  uh_uptimePercentage :: string
  uh_averageResponseTime :: "int option"
  uh_createdAt :: timestamp

text \<open>\<open>incidents\<close> (lines 60--69); \<open>status\<close> is \<open>mysqlEnum(["ongoing", "resolved"])\<close>.\<close>

datatype incident_status = Ongoing | Resolved

record incident =
  inc_id :: row_id
  inc_targetId :: row_id
  inc_startTime :: timestamp
  inc_endTime :: "timestamp option"
  inc_status :: incident_status
  inc_reason :: "string option"
  inc_createdAt :: timestamp
  inc_updatedAt :: timestamp

subsection \<open>Column types\<close>

definition int32_max :: int where
  "int32_max = 2 ^ 31 - 1"

definition int_col_ok :: "int \<Rightarrow> bool" where
  "int_col_ok v \<longleftrightarrow> - (2 ^ 31) \<le> v \<and> v \<le> int32_max"

definition varchar_ok :: "nat \<Rightarrow> string \<Rightarrow> bool" where
  "varchar_ok n s \<longleftrightarrow> length s \<le> n"

definition text_ok :: "string option \<Rightarrow> bool" where
  "text_ok s \<longleftrightarrow> (case s of None \<Rightarrow> True | Some v \<Rightarrow> length v \<le> 65535)"

definition int_opt_ok :: "int option \<Rightarrow> bool" where
  "int_opt_ok v \<longleftrightarrow> (case v of None \<Rightarrow> True | Some x \<Rightarrow> int_col_ok x)"

text \<open>A \<open>Date\<close> written to a \<open>timestamp\<close> column is rounded to the second, and the
  column holds the seconds 1 to \<open>2^31 - 1\<close> after the epoch.\<close>

definition ts_round :: "timestamp \<Rightarrow> timestamp" where
  "ts_round t = (t + 500) div 1000 * 1000"

definition ts_ok :: "timestamp \<Rightarrow> bool" where
  "ts_ok t \<longleftrightarrow> 1000 \<le> ts_round t \<and> ts_round t \<le> int32_max * 1000"

text \<open>MySQL's \<open>NOW()\<close>, which fills the \<open>defaultNow()\<close> and \<open>onUpdateNow()\<close>
  columns: the server's clock at second precision, the fraction of the second dropped.
  The clock is taken to lie inside the \<open>TIMESTAMP\<close> range.\<close>

definition sql_now :: "timestamp \<Rightarrow> timestamp" where
  "sql_now t = t div 1000 * 1000"

text \<open>\<open>decimal(5, 2)\<close> (the \<open>uptimePercentage\<close> column, schema.ts line 49), written
  from a string: strict mode accepts an optional sign and decimal digits with an optional
  fraction, and refuses anything else as an incorrect decimal value (1366); the value,
  rounded half up to two decimals, must stay below 1000 in magnitude (else 1264).
  Exponent notation and surrounding spaces, which MySQL also reads, are refused here.\<close>

definition decimal_parts :: "string \<Rightarrow> string \<times> string \<times> string" where
  "decimal_parts v =
     (let u = (case v of c # r \<Rightarrow> if c = CHR ''-'' \<or> c = CHR ''+'' then r else v | [] \<Rightarrow> [])
      in (takeWhile is_dec_digit u, dropWhile is_dec_digit u,
          (case dropWhile is_dec_digit u of [] \<Rightarrow> [] | c # r \<Rightarrow> r)))"

definition decimal_syntax_ok :: "string \<Rightarrow> bool" where
  "decimal_syntax_ok v \<longleftrightarrow>
     (case decimal_parts v of (ip, rest, fp) \<Rightarrow>
        (rest = [] \<or> (hd rest = CHR ''.'' \<and> list_all is_dec_digit fp)) \<and> (ip \<noteq> [] \<or> fp \<noteq> []))"

definition decimal52_range_ok :: "string \<Rightarrow> bool" where
  "decimal52_range_ok v \<longleftrightarrow>
     (case decimal_parts v of (ip, rest, fp) \<Rightarrow>
        (200 * dec_value ip * 10 ^ length fp + 200 * dec_value fp + 10 ^ length fp) div (2 * 10 ^ length fp)
          < 100000)"

text \<open>The column checks evaluate on concrete values by unfolding.\<close>

lemmas column_simps = int_col_ok_def int32_max_def varchar_ok_def text_ok_def int_opt_ok_def ts_ok_def
  ts_round_def decimal_syntax_ok_def decimal52_range_ok_def decimal_parts_def is_dec_digit_def dec_value_def
  digit_val_def

lemma ts_round_idem [simp]: "ts_round (ts_round t) = ts_round t"
  by (simp add: ts_round_def)

lemma int_col_ok_small [simp]: "int_col_ok 0" "int_col_ok 1"
  by (simp_all add: int_col_ok_def int32_max_def)

subsection \<open>Errors of the store\<close>

text \<open>
  \<open>Database_not_available\<close> is the \<open>Error("Database not available")\<close> that every
  write of db.ts throws when \<open>getDb()\<close> returned \<open>null\<close>; the others are the MySQL
  errors of strict mode for a value a column cannot hold (1264 out of range, 1406 data
  too long, 1292 incorrect datetime, 1366 incorrect decimal value) and for an exhausted \<open>AUTO_INCREMENT\<close> (1467);
  \<open>No_values_to_set\<close> is drizzle's error for an \<open>UPDATE\<close> with nothing to set.
\<close>

datatype db_error =
    Database_not_available
  | Out_of_range string
  | Data_too_long string
  | Incorrect_datetime string
  | Incorrect_decimal string
  | Autoinc_read_failed
  | No_values_to_set

text \<open>What an \<open>INSERT\<close>, \<open>UPDATE\<close> or \<open>DELETE\<close> returns to the caller
  (mysql2's \<open>ResultSetHeader\<close>): the rows it matched and the id it assigned.\<close>

record result_header =
  affectedRows :: nat
  insertId :: row_id

subsection \<open>The store\<close>

record db_state =
  targets :: "monitoring_target list"
  targets_ai :: row_id
  checks :: "monitoring_check list"
  checks_ai :: row_id
  history :: "uptime_history list"
  history_ai :: row_id
  incidents :: "incident list"
  incidents_ai :: row_id

definition empty_db :: db_state where
  "empty_db = \<lparr>targets = [], targets_ai = 1, checks = [], checks_ai = 1,
               history = [], history_ai = 1, incidents = [], incidents_ai = 1\<rparr>"

text \<open>The next value of an \<open>AUTO_INCREMENT\<close> counter of an \<open>INT\<close> key, or error
  1467 once the counter has passed the column's range.\<close>

definition next_id :: "row_id \<Rightarrow> db_error + row_id" where
  "next_id ai = (if ai \<le> int32_max then Inr ai else Inl Autoinc_read_failed)"

lemma next_id_Inr [simp]: "next_id ai = Inr i \<longleftrightarrow> i = ai \<and> ai \<le> int32_max"
  by (auto simp: next_id_def)

subsection \<open>Well-formed tables\<close>

text \<open>
  The key invariant of every table: the ids are distinct, positive and below the
  \<open>AUTO_INCREMENT\<close> counter, so that the next insert gets a fresh key.
\<close>

definition ids_wf :: "('r \<Rightarrow> row_id) \<Rightarrow> 'r list \<Rightarrow> row_id \<Rightarrow> bool" where
  "ids_wf key rs ai \<longleftrightarrow>
     0 < ai \<and> distinct (map key rs) \<and> (\<forall>r \<in> set rs. 0 < key r \<and> key r < ai)"

definition db_wf :: "db_state \<Rightarrow> bool" where
  "db_wf s \<longleftrightarrow> ids_wf tgt_id (targets s) (targets_ai s) \<and> ids_wf chk_id (checks s) (checks_ai s)
     \<and> ids_wf uh_id (history s) (history_ai s) \<and> ids_wf inc_id (incidents s) (incidents_ai s)"

lemma ids_wf_Nil [simp]: "ids_wf key [] ai \<longleftrightarrow> 0 < ai"
  by (simp add: ids_wf_def)

lemma ids_wf_snoc:
  "ids_wf key rs ai \<Longrightarrow> key r = ai \<Longrightarrow> ids_wf key (rs @ [r]) (ai + 1)"
  by (auto simp: ids_wf_def)

lemma ids_wf_filter:
  "ids_wf key rs ai \<Longrightarrow> ids_wf key (filter P rs) ai"
  by (auto simp: ids_wf_def distinct_map_filter)

lemma ids_wf_map_keep:
  assumes "ids_wf key rs ai" and "\<And>r. key (f r) = key r"
  shows "ids_wf key (map f rs) ai"
proof -
  have "key \<circ> f = key" using assms(2) by (simp add: fun_eq_iff)
  with assms show ?thesis by (simp add: ids_wf_def)
qed

lemma empty_db_wf: "db_wf empty_db"
  by (simp add: db_wf_def empty_db_def)

end
