(* ===== verification/Store.thy ===== *)
theory Store
  imports Schema
begin

text \<open>
  What the three kinds of write statement the code issues through drizzle do to one
  table, independently of the table: \<open>INSERT\<close> with an \<open>AUTO_INCREMENT\<close> key
  (\<open>insert_row\<close>), \<open>UPDATE ... SET ... WHERE\<close> (\<open>update_rows\<close>) and
  \<open>DELETE ... WHERE\<close> (\<open>delete_rows\<close>), with the lemmas that every operation of
  db.ts reuses: the key invariant \<open>ids_wf\<close> is kept, rows other than the matched
  ones are untouched, and inserts only append.
\<close>

subsection \<open>INSERT\<close>

text \<open>
  \<open>insert_row err mk rs ai\<close>: build the row with the next counter value as its key,
  check its columns (\<open>err\<close> gives the first column that cannot hold its value), then
  take the key from the counter, and append the row. MySQL reports a column error
  before an exhausted counter. A statement that fails leaves the table and the counter as they were.
\<close>

definition insert_row ::
  "('r \<Rightarrow> db_error option) \<Rightarrow> (row_id \<Rightarrow> 'r) \<Rightarrow> 'r list \<Rightarrow> row_id
   \<Rightarrow> db_error + (result_header \<times> 'r list \<times> row_id)" where
  "insert_row err mk rs ai =
     (case err (mk ai) of
        Some e \<Rightarrow> Inl e
      | None \<Rightarrow>
          (case next_id ai of
             Inl e \<Rightarrow> Inl e
           | Inr i \<Rightarrow> Inr (\<lparr>affectedRows = 1, insertId = i\<rparr>, rs @ [mk i], i + 1)))"

lemma insert_row_Inr:
  "insert_row err mk rs ai = Inr (h, rs', ai') \<longleftrightarrow>
     ai \<le> int32_max \<and> err (mk ai) = None \<and>
     h = \<lparr>affectedRows = 1, insertId = ai\<rparr> \<and> rs' = rs @ [mk ai] \<and> ai' = ai + 1"
  by (auto simp: insert_row_def next_id_def split: option.splits)

lemma insert_row_Inl:
  "insert_row err mk rs ai = Inl e \<longleftrightarrow>
     (if err (mk ai) = None then int32_max < ai \<and> e = Autoinc_read_failed else err (mk ai) = Some e)"
  by (auto simp: insert_row_def next_id_def split: option.splits)

lemma insert_row_ids_wf:
  assumes "insert_row err mk rs ai = Inr (h, rs', ai')"
    and "ids_wf key rs ai" and "\<And>i. key (mk i) = i"
  shows "ids_wf key rs' ai'"
  using assms by (simp add: insert_row_Inr ids_wf_snoc)

lemma insert_row_prefix:
  "insert_row err mk rs ai = Inr (h, rs', ai') \<Longrightarrow> prefix rs rs'"
  by (simp add: insert_row_Inr)

text \<open>The shape in which every insert of db.ts uses \<open>insert_row\<close>.\<close>

lemma insert_case_Inr:
  "(case insert_row err mk rs ai of Inl e \<Rightarrow> Inl e | Inr (h, rs', ai') \<Rightarrow> Inr (h, f rs' ai')) = Inr (h, t)
   \<longleftrightarrow> ai \<le> int32_max \<and> err (mk ai) = None \<and> h = \<lparr>affectedRows = 1, insertId = ai\<rparr>
       \<and> t = f (rs @ [mk ai]) (ai + 1)"
  by (auto simp: insert_row_def next_id_def split: option.splits)

subsection \<open>UPDATE and DELETE\<close>

text \<open>
  \<open>UPDATE t SET ... WHERE p\<close> rewrites every row that satisfies \<open>p\<close>; the result
  header counts the matched rows (mysql2 connects with \<open>CLIENT_FOUND_ROWS\<close>).
\<close>

definition update_rows :: "('r \<Rightarrow> bool) \<Rightarrow> ('r \<Rightarrow> 'r) \<Rightarrow> 'r list \<Rightarrow> 'r list" where
  "update_rows p f rs = map (\<lambda>r. if p r then f r else r) rs"

definition delete_rows :: "('r \<Rightarrow> bool) \<Rightarrow> 'r list \<Rightarrow> 'r list" where
  "delete_rows p rs = filter (\<lambda>r. \<not> p r) rs"

definition matched :: "('r \<Rightarrow> bool) \<Rightarrow> 'r list \<Rightarrow> nat" where
  "matched p rs = length (filter p rs)"

lemma length_update_rows [simp]: "length (update_rows p f rs) = length rs"
  by (simp add: update_rows_def)

lemma update_rows_nth:
  "i < length rs \<Longrightarrow> update_rows p f rs ! i = (if p (rs ! i) then f (rs ! i) else rs ! i)"
  by (simp add: update_rows_def)

lemma update_rows_no_match:
  "\<forall>r \<in> set rs. \<not> p r \<Longrightarrow> update_rows p f rs = rs"
  by (simp add: update_rows_def map_ident_on)

lemma update_rows_ids_wf:
  "ids_wf key rs ai \<Longrightarrow> (\<And>r. key (f r) = key r) \<Longrightarrow> ids_wf key (update_rows p f rs) ai"
  unfolding update_rows_def by (rule ids_wf_map_keep) auto

lemma delete_rows_ids_wf:
  "ids_wf key rs ai \<Longrightarrow> ids_wf key (delete_rows p rs) ai"
  by (simp add: delete_rows_def ids_wf_filter)

lemma set_update_rows:
  "set (update_rows p f rs) = {r \<in> set rs. \<not> p r} \<union> f ` {r \<in> set rs. p r}"
  by (auto simp: update_rows_def)

lemma update_rows_memE:
  assumes "x \<in> set (update_rows p f rs)"
  obtains "x \<in> set rs" and "\<not> p x" | r where "r \<in> set rs" and "p r" and "x = f r"
  using assms by (auto simp: update_rows_def)

lemma set_delete_rows [simp]: "set (delete_rows p rs) = {r \<in> set rs. \<not> p r}"
  by (auto simp: delete_rows_def)

text \<open>A row keyed by a unique id: the \<open>WHERE id = i\<close> of the code matches at most
  that one row.\<close>

lemma matched_key_le_1:
  "distinct (map key rs) \<Longrightarrow> matched (\<lambda>r. key r = i) rs \<le> 1"
proof (induction rs)
  case Nil
  then show ?case by (simp add: matched_def)
next
  case (Cons r rs)
  show ?case
  proof (cases "key r = i")
    case True
    with Cons.prems have "filter (\<lambda>x. key x = i) rs = []"
      by (auto simp: filter_empty_conv) (metis imageI)
    with True show ?thesis by (simp add: matched_def)
  next
    case False
    with Cons show ?thesis by (simp add: matched_def)
  qed
qed

end
