(* ===== verification/Db.thy ===== *)
theory Db
  imports Store
begin

text \<open>
  The data-access layer \<open>src/server/db.ts\<close>, one definition per exported function, in
  the file's order. Each takes the result of \<open>getDb()\<close> as a \<open>db_state option\<close>:
  \<open>None\<close> is the \<open>null\<close> handle (no \<open>DATABASE_URL\<close>, or \<open>drizzle()\<close> threw).
  A read returns \<open>[]\<close> or \<open>None\<close> on \<open>None\<close>, as the code's
  \<open>if (!db) return [] / null\<close>; a write returns \<open>Inl Database_not_available\<close>, the
  code's \<open>throw new Error("Database not available")\<close>, or the MySQL error of the
  statement, or the result header with the new store. The clock \<open>now\<close> is the
  server's \<open>Date.now()\<close> in milliseconds; the \<open>defaultNow()\<close> and
  \<open>onUpdateNow()\<close> columns get MySQL's \<open>NOW()\<close>, the same instant at second
  precision (\<open>sql_now now\<close>).
\<close>

subsection \<open>The connection\<close>

text \<open>
  \<open>getDb()\<close> (lines 14--27): the cached handle \<open>_db\<close> if there is one, else a new
  one when \<open>DATABASE_URL\<close> is set and \<open>drizzle(url)\<close> does not throw
  (\<open>drizzle u = None\<close>). The value returned is also the new \<open>_db\<close>.
\<close>

definition getDb :: "(string \<Rightarrow> 'h option) \<Rightarrow> string option \<Rightarrow> 'h option \<Rightarrow> 'h option" where
  "getDb drizzle database_url cached =
     (case cached of
        Some h \<Rightarrow> Some h
      | None \<Rightarrow> (case database_url of None \<Rightarrow> None | Some u \<Rightarrow> drizzle u))"

subsection \<open>Inputs\<close>

text \<open>
  The insert types of schema.ts (\<open>$inferInsert\<close>) restricted to the fields the code
  passes: the router's validated inputs. Columns the code never sets take their
  schema default (\<open>isActive\<close> 1, \<open>status\<close> as given, timestamps \<open>sql_now now\<close>).
\<close>

record new_target =
  nt_name :: string
  nt_url :: string
  nt_description :: "string option"
  nt_method :: string
  nt_checkInterval :: int
  nt_timeout :: int
  nt_expectedStatusCode :: int

record target_patch =
  tp_name :: "string option"
  tp_url :: "string option"
  tp_description :: "string option"
  tp_checkInterval :: "int option"
  tp_timeout :: "int option"
  tp_expectedStatusCode :: "int option"
  tp_isActive :: "int option"

record new_check =
  nc_targetId :: row_id
  nc_statusCode :: "int option"
  nc_responseTime :: "int option"
  nc_isSuccess :: int
  nc_errorMessage :: "string option"

record new_uptime =
  nu_targetId :: row_id
  nu_period :: period
  nu_timestamp :: timestamp
  nu_totalChecks :: int
  nu_successfulChecks :: int
  nu_uptimePercentage :: string
  nu_averageResponseTime :: "int option"

record new_incident =
  ni_targetId :: row_id
  ni_startTime :: timestamp
  ni_reason :: "string option"
  ni_status :: incident_status

record incident_patch =
  ip_status :: "incident_status option"
  ip_endTime :: "timestamp option"

text \<open>A field of a \<open>Partial<...>\<close> update: \<open>undefined\<close> keeps the old value.\<close>

definition upd_opt :: "'a option \<Rightarrow> 'a \<Rightarrow> 'a" where
  "upd_opt v x = (case v of None \<Rightarrow> x | Some y \<Rightarrow> y)"

lemma upd_opt_simps [simp]: "upd_opt None x = x" "upd_opt (Some y) x = y"
  by (simp_all add: upd_opt_def)

subsection \<open>Column checks of each table\<close>

definition target_row_error :: "monitoring_target \<Rightarrow> db_error option" where
  "target_row_error t = first_error
     [(varchar_ok 255 (tgt_name t), Data_too_long ''name''),
      (varchar_ok 2048 (tgt_url t), Data_too_long ''url''),
      (text_ok (tgt_description t), Data_too_long ''description''),
      (varchar_ok 10 (tgt_method t), Data_too_long ''method''),
      (int_col_ok (tgt_checkInterval t), Out_of_range ''checkInterval''),
      (int_col_ok (tgt_timeout t), Out_of_range ''timeout''),
      (int_col_ok (tgt_expectedStatusCode t), Out_of_range ''expectedStatusCode''),
      (int_col_ok (tgt_isActive t), Out_of_range ''isActive'')]"

definition check_row_error :: "monitoring_check \<Rightarrow> db_error option" where
  "check_row_error c = first_error
     [(int_col_ok (chk_targetId c), Out_of_range ''targetId''),
      (int_opt_ok (chk_statusCode c), Out_of_range ''statusCode''),
      (int_opt_ok (chk_responseTime c), Out_of_range ''responseTime''),
      (int_col_ok (chk_isSuccess c), Out_of_range ''isSuccess''),
      (text_ok (chk_errorMessage c), Data_too_long ''errorMessage'')]"

definition uptime_row_error :: "timestamp \<Rightarrow> uptime_history \<Rightarrow> db_error option" where
  "uptime_row_error ts u = first_error
     [(int_col_ok (uh_targetId u), Out_of_range ''targetId''),
      (ts_ok ts, Incorrect_datetime ''timestamp''),
      (int_col_ok (uh_totalChecks u), Out_of_range ''totalChecks''),
      (int_col_ok (uh_successfulChecks u), Out_of_range ''successfulChecks''),
      (decimal_syntax_ok (uh_uptimePercentage u), Incorrect_decimal ''uptimePercentage''),
      (decimal52_range_ok (uh_uptimePercentage u), Out_of_range ''uptimePercentage''),
      (int_opt_ok (uh_averageResponseTime u), Out_of_range ''averageResponseTime'')]"

definition incident_row_error :: "timestamp \<Rightarrow> incident \<Rightarrow> db_error option" where
  "incident_row_error st i = first_error
     [(int_col_ok (inc_targetId i), Out_of_range ''targetId''),
      (ts_ok st, Incorrect_datetime ''startTime''),
      (text_ok (inc_reason i), Data_too_long ''reason'')]"

subsection \<open>Monitoring targets\<close>

text \<open>\<open>getAllTargets()\<close> (lines 32--36): the rows with \<open>isActive = 1\<close>.\<close>

definition getAllTargets :: "db_state option \<Rightarrow> monitoring_target list" where
  "getAllTargets db =
     (case db of None \<Rightarrow> [] | Some s \<Rightarrow> filter (\<lambda>t. tgt_isActive t = 1) (targets s))"

text \<open>\<open>getTargetById(id)\<close> (lines 38--43): \<open>WHERE id = ? LIMIT 1\<close>, the first row or
  \<open>null\<close>.\<close>

definition getTargetById :: "db_state option \<Rightarrow> row_id \<Rightarrow> monitoring_target option" where
  "getTargetById db i =
     (case db of
        None \<Rightarrow> None
      | Some s \<Rightarrow> (case take 1 (filter (\<lambda>t. tgt_id t = i) (targets s)) of
                    [] \<Rightarrow> None
                  | t # _ \<Rightarrow> Some t))"

definition mk_target :: "timestamp \<Rightarrow> new_target \<Rightarrow> row_id \<Rightarrow> monitoring_target" where
  "mk_target now nt i =
     \<lparr>tgt_id = i, tgt_name = nt_name nt, tgt_url = nt_url nt,
      tgt_description = nt_description nt, tgt_method = nt_method nt,
      tgt_checkInterval = nt_checkInterval nt, tgt_timeout = nt_timeout nt,
      tgt_expectedStatusCode = nt_expectedStatusCode nt, tgt_isActive = 1,
      tgt_createdAt = sql_now now, tgt_updatedAt = sql_now now\<rparr>"

text \<open>\<open>createTarget(target)\<close> (lines 45--50).\<close>

definition createTarget ::
  "db_state option \<Rightarrow> timestamp \<Rightarrow> new_target \<Rightarrow> db_error + (result_header \<times> db_state)" where
  "createTarget db now nt =
     (case db of
        None \<Rightarrow> Inl Database_not_available
      | Some s \<Rightarrow>
          (case insert_row target_row_error (mk_target now nt) (targets s) (targets_ai s) of
             Inl e \<Rightarrow> Inl e
           | Inr (h, rs, ai) \<Rightarrow> Inr (h, s\<lparr>targets := rs, targets_ai := ai\<rparr>)))"

text \<open>
  \<open>updateTarget(id, target)\<close> (lines 52--56). drizzle drops the \<open>undefined\<close>
  fields of the patch and throws \<open>"No values to set"\<close> when none is left. The
  column checks fire only on rows the \<open>WHERE\<close> matches, and \<open>ON UPDATE
  CURRENT_TIMESTAMP\<close> moves \<open>updatedAt\<close> only on a row whose values changed.
\<close>

definition patch_empty :: "target_patch \<Rightarrow> bool" where
  "patch_empty p \<longleftrightarrow> tp_name p = None \<and> tp_url p = None \<and> tp_description p = None
     \<and> tp_checkInterval p = None \<and> tp_timeout p = None \<and> tp_expectedStatusCode p = None
     \<and> tp_isActive p = None"

definition apply_target_patch :: "target_patch \<Rightarrow> monitoring_target \<Rightarrow> monitoring_target" where
  "apply_target_patch p t =
     t\<lparr>tgt_name := upd_opt (tp_name p) (tgt_name t),
       tgt_url := upd_opt (tp_url p) (tgt_url t),
       tgt_description := (case tp_description p of None \<Rightarrow> tgt_description t | Some d \<Rightarrow> Some d),
       tgt_checkInterval := upd_opt (tp_checkInterval p) (tgt_checkInterval t),
       tgt_timeout := upd_opt (tp_timeout p) (tgt_timeout t),
       tgt_expectedStatusCode := upd_opt (tp_expectedStatusCode p) (tgt_expectedStatusCode t),
       tgt_isActive := upd_opt (tp_isActive p) (tgt_isActive t)\<rparr>"

definition touch_target :: "timestamp \<Rightarrow> monitoring_target \<Rightarrow> monitoring_target \<Rightarrow> monitoring_target" where
  "touch_target now t t' = (if t' = t then t else t'\<lparr>tgt_updatedAt := sql_now now\<rparr>)"

definition updateTarget ::
  "db_state option \<Rightarrow> timestamp \<Rightarrow> row_id \<Rightarrow> target_patch \<Rightarrow> db_error + (result_header \<times> db_state)" where
  "updateTarget db now i p =
     (case db of
        None \<Rightarrow> Inl Database_not_available
      | Some s \<Rightarrow>
          if patch_empty p then Inl No_values_to_set
          else
            let sel = (\<lambda>t. tgt_id t = i);
                hit = filter sel (targets s);
                h = \<lparr>affectedRows = length hit, insertId = 0\<rparr>
            in case List.map_filter (\<lambda>t. target_row_error (apply_target_patch p t)) hit of
                 e # _ \<Rightarrow> Inl e
               | [] \<Rightarrow>
                   Inr (h, s\<lparr>targets := update_rows sel
                              (\<lambda>t. touch_target now t (apply_target_patch p t)) (targets s)\<rparr>))"

text \<open>\<open>deleteTarget(id)\<close> (lines 58--62): a hard \<open>DELETE\<close>; nothing cascades.\<close>

definition deleteTarget ::
  "db_state option \<Rightarrow> row_id \<Rightarrow> db_error + (result_header \<times> db_state)" where
  "deleteTarget db i =
     (case db of
        None \<Rightarrow> Inl Database_not_available
      | Some s \<Rightarrow>
          Inr (\<lparr>affectedRows = matched (\<lambda>t. tgt_id t = i) (targets s), insertId = 0\<rparr>,
               s\<lparr>targets := delete_rows (\<lambda>t. tgt_id t = i) (targets s)\<rparr>))"

subsection \<open>Monitoring checks\<close>

definition mk_check :: "timestamp \<Rightarrow> new_check \<Rightarrow> row_id \<Rightarrow> monitoring_check" where
  "mk_check now nc i =
     \<lparr>chk_id = i, chk_targetId = nc_targetId nc, chk_statusCode = nc_statusCode nc,
      chk_responseTime = nc_responseTime nc, chk_isSuccess = nc_isSuccess nc,
      chk_errorMessage = nc_errorMessage nc, chk_checkedAt = sql_now now\<rparr>"

text \<open>\<open>createCheck(check)\<close> (lines 67--71): one \<open>INSERT\<close>; \<open>checkedAt\<close> is the
  column default \<open>NOW()\<close>, at second precision.\<close>

definition createCheck ::
  "db_state option \<Rightarrow> timestamp \<Rightarrow> new_check \<Rightarrow> db_error + (result_header \<times> db_state)" where
  "createCheck db now nc =
     (case db of
        None \<Rightarrow> Inl Database_not_available
      | Some s \<Rightarrow>
          (case insert_row check_row_error (mk_check now nc) (checks s) (checks_ai s) of
             Inl e \<Rightarrow> Inl e
           | Inr (h, rs, ai) \<Rightarrow> Inr (h, s\<lparr>checks := rs, checks_ai := ai\<rparr>)))"

text \<open>\<open>getChecksByTargetId(targetId, limit)\<close> (lines 73--82).\<close>

definition getChecksByTargetId :: "db_state option \<Rightarrow> row_id \<Rightarrow> nat \<Rightarrow> monitoring_check list" where
  "getChecksByTargetId db tid limit =
     (case db of
        None \<Rightarrow> []
      | Some s \<Rightarrow> take limit (order_desc chk_checkedAt (filter (\<lambda>c. chk_targetId c = tid) (checks s))))"

text \<open>The lower bound \<open>new Date(Date.now() - hoursBack * 60 * 60 * 1000)\<close>.\<close>

definition hours_ago :: "timestamp \<Rightarrow> int \<Rightarrow> timestamp" where
  "hours_ago now hoursBack = now - hoursBack * 60 * 60 * 1000"

text \<open>\<open>getRecentChecksByTargetId(targetId, hoursBack)\<close> (lines 84--96).\<close>

definition getRecentChecksByTargetId :: "db_state option \<Rightarrow> timestamp \<Rightarrow> row_id \<Rightarrow> int \<Rightarrow> monitoring_check list" where
  "getRecentChecksByTargetId db now tid hoursBack =
     (case db of
        None \<Rightarrow> []
      | Some s \<Rightarrow>
          order_desc chk_checkedAt
            (filter (\<lambda>c. chk_targetId c = tid \<and> hours_ago now hoursBack \<le> chk_checkedAt c) (checks s)))"

subsection \<open>Uptime history\<close>

definition mk_uptime :: "timestamp \<Rightarrow> new_uptime \<Rightarrow> row_id \<Rightarrow> uptime_history" where
  "mk_uptime now nu i =
     \<lparr>uh_id = i, uh_targetId = nu_targetId nu, uh_period = nu_period nu,
      uh_timestamp = ts_round (nu_timestamp nu), uh_totalChecks = nu_totalChecks nu,
      uh_successfulChecks = nu_successfulChecks nu, uh_uptimePercentage = nu_uptimePercentage nu,
      uh_averageResponseTime = nu_averageResponseTime nu, uh_createdAt = sql_now now\<rparr>"

text \<open>\<open>createUptimeRecord(record)\<close> (lines 101--105): a plain \<open>INSERT\<close>, not an
  upsert.\<close>

definition createUptimeRecord ::
  "db_state option \<Rightarrow> timestamp \<Rightarrow> new_uptime \<Rightarrow> db_error + (result_header \<times> db_state)" where
  "createUptimeRecord db now nu =
     (case db of
        None \<Rightarrow> Inl Database_not_available
      | Some s \<Rightarrow>
          (case insert_row (uptime_row_error (nu_timestamp nu)) (mk_uptime now nu) (history s) (history_ai s) of
             Inl e \<Rightarrow> Inl e
           | Inr (h, rs, ai) \<Rightarrow> Inr (h, s\<lparr>history := rs, history_ai := ai\<rparr>)))"

text \<open>\<open>getUptimeHistoryByTargetId(targetId, period, daysBack)\<close> (lines 107--120).\<close>

definition getUptimeHistoryByTargetId ::
  "db_state option \<Rightarrow> timestamp \<Rightarrow> row_id \<Rightarrow> period \<Rightarrow> int \<Rightarrow> uptime_history list" where
  "getUptimeHistoryByTargetId db now tid per daysBack =
     (case db of
        None \<Rightarrow> []
      | Some s \<Rightarrow>
          order_desc uh_timestamp
            (filter (\<lambda>u. uh_targetId u = tid \<and> uh_period u = per
                          \<and> now - daysBack * 24 * 60 * 60 * 1000 \<le> uh_timestamp u) (history s)))"

subsection \<open>Incidents\<close>

definition mk_incident :: "timestamp \<Rightarrow> new_incident \<Rightarrow> row_id \<Rightarrow> incident" where
  "mk_incident now ni i =
     \<lparr>inc_id = i, inc_targetId = ni_targetId ni, inc_startTime = ts_round (ni_startTime ni),
      inc_endTime = None, inc_status = ni_status ni, inc_reason = ni_reason ni,
      inc_createdAt = sql_now now, inc_updatedAt = sql_now now\<rparr>"

text \<open>\<open>createIncident(incident)\<close> (lines 125--129): a plain \<open>INSERT\<close>; nothing looks
  for an ongoing incident of the same target first.\<close>

definition createIncident ::
  "db_state option \<Rightarrow> timestamp \<Rightarrow> new_incident \<Rightarrow> db_error + (result_header \<times> db_state)" where
  "createIncident db now ni =
     (case db of
        None \<Rightarrow> Inl Database_not_available
      | Some s \<Rightarrow>
          (case insert_row (incident_row_error (ni_startTime ni)) (mk_incident now ni) (incidents s) (incidents_ai s) of
             Inl e \<Rightarrow> Inl e
           | Inr (h, rs, ai) \<Rightarrow> Inr (h, s\<lparr>incidents := rs, incidents_ai := ai\<rparr>)))"

text \<open>\<open>getIncidentsByTargetId(targetId, limit)\<close> (lines 131--140).\<close>

definition getIncidentsByTargetId :: "db_state option \<Rightarrow> row_id \<Rightarrow> nat \<Rightarrow> incident list" where
  "getIncidentsByTargetId db tid limit =
     (case db of
        None \<Rightarrow> []
      | Some s \<Rightarrow> take limit (order_desc inc_startTime (filter (\<lambda>i. inc_targetId i = tid) (incidents s))))"

text \<open>\<open>updateIncident(id, incident)\<close> (lines 142--146), for the fields the code sets
  (\<open>status\<close> and \<open>endTime\<close>); \<open>endTime\<close> is a \<open>Date\<close>, rounded and range-checked
  on the matched row.\<close>

definition apply_incident_patch :: "incident_patch \<Rightarrow> incident \<Rightarrow> incident" where
  "apply_incident_patch p r =
     r\<lparr>inc_status := upd_opt (ip_status p) (inc_status r),
       inc_endTime := (case ip_endTime p of None \<Rightarrow> inc_endTime r | Some e \<Rightarrow> Some (ts_round e))\<rparr>"

definition touch_incident :: "timestamp \<Rightarrow> incident \<Rightarrow> incident \<Rightarrow> incident" where
  "touch_incident now r r' = (if r' = r then r else r'\<lparr>inc_updatedAt := sql_now now\<rparr>)"

definition incident_patch_ok :: "incident_patch \<Rightarrow> bool" where
  "incident_patch_ok p \<longleftrightarrow> (case ip_endTime p of None \<Rightarrow> True | Some e \<Rightarrow> ts_ok e)"

definition updateIncident ::
  "db_state option \<Rightarrow> timestamp \<Rightarrow> row_id \<Rightarrow> incident_patch \<Rightarrow> db_error + (result_header \<times> db_state)" where
  "updateIncident db now i p =
     (case db of
        None \<Rightarrow> Inl Database_not_available
      | Some s \<Rightarrow>
          if ip_status p = None \<and> ip_endTime p = None then Inl No_values_to_set
          else
            let sel = (\<lambda>r. inc_id r = i);
                n = matched sel (incidents s)
            in if 0 < n \<and> \<not> incident_patch_ok p then Inl (Incorrect_datetime ''endTime'')
               else Inr (\<lparr>affectedRows = n, insertId = 0\<rparr>,
                         s\<lparr>incidents := update_rows sel
                              (\<lambda>r. touch_incident now r (apply_incident_patch p r)) (incidents s)\<rparr>))"

text \<open>The reads evaluate on a concrete store by unfolding.\<close>

declare getAllTargets_def [query_simps] getTargetById_def [query_simps] getChecksByTargetId_def [query_simps]
  getRecentChecksByTargetId_def [query_simps] getUptimeHistoryByTargetId_def [query_simps]
  getIncidentsByTargetId_def [query_simps]

subsection \<open>What each successful write does\<close>

lemma createTarget_Inr:
  "createTarget (Some s) now nt = Inr (h, t) \<longleftrightarrow>
     targets_ai s \<le> int32_max \<and> target_row_error (mk_target now nt (targets_ai s)) = None
     \<and> h = \<lparr>affectedRows = 1, insertId = targets_ai s\<rparr>
     \<and> t = s\<lparr>targets := targets s @ [mk_target now nt (targets_ai s)], targets_ai := targets_ai s + 1\<rparr>"
  unfolding createTarget_def option.case by (rule insert_case_Inr)

lemma createCheck_Inr:
  "createCheck (Some s) now nc = Inr (h, t) \<longleftrightarrow>
     checks_ai s \<le> int32_max \<and> check_row_error (mk_check now nc (checks_ai s)) = None
     \<and> h = \<lparr>affectedRows = 1, insertId = checks_ai s\<rparr>
     \<and> t = s\<lparr>checks := checks s @ [mk_check now nc (checks_ai s)], checks_ai := checks_ai s + 1\<rparr>"
  unfolding createCheck_def option.case by (rule insert_case_Inr)

lemma createUptimeRecord_Inr:
  "createUptimeRecord (Some s) now nu = Inr (h, t) \<longleftrightarrow>
     history_ai s \<le> int32_max \<and> uptime_row_error (nu_timestamp nu) (mk_uptime now nu (history_ai s)) = None
     \<and> h = \<lparr>affectedRows = 1, insertId = history_ai s\<rparr>
     \<and> t = s\<lparr>history := history s @ [mk_uptime now nu (history_ai s)], history_ai := history_ai s + 1\<rparr>"
  unfolding createUptimeRecord_def option.case by (rule insert_case_Inr)

lemma createIncident_Inr:
  "createIncident (Some s) now ni = Inr (h, t) \<longleftrightarrow>
     incidents_ai s \<le> int32_max \<and> incident_row_error (ni_startTime ni) (mk_incident now ni (incidents_ai s)) = None
     \<and> h = \<lparr>affectedRows = 1, insertId = incidents_ai s\<rparr>
     \<and> t = s\<lparr>incidents := incidents s @ [mk_incident now ni (incidents_ai s)], incidents_ai := incidents_ai s + 1\<rparr>"
  unfolding createIncident_def option.case by (rule insert_case_Inr)

lemma updateTarget_Inr:
  "updateTarget (Some s) now i p = Inr (h, t) \<longleftrightarrow>
     \<not> patch_empty p
     \<and> List.map_filter (\<lambda>r. target_row_error (apply_target_patch p r)) (filter (\<lambda>r. tgt_id r = i) (targets s)) = []
     \<and> h = \<lparr>affectedRows = length (filter (\<lambda>r. tgt_id r = i) (targets s)), insertId = 0\<rparr>
     \<and> t = s\<lparr>targets := update_rows (\<lambda>r. tgt_id r = i)
                          (\<lambda>r. touch_target now r (apply_target_patch p r)) (targets s)\<rparr>"
  by (auto simp: updateTarget_def Let_def split: list.splits)

lemma deleteTarget_Inr:
  "deleteTarget (Some s) i = Inr (h, t) \<longleftrightarrow>
     h = \<lparr>affectedRows = matched (\<lambda>r. tgt_id r = i) (targets s), insertId = 0\<rparr>
     \<and> t = s\<lparr>targets := delete_rows (\<lambda>r. tgt_id r = i) (targets s)\<rparr>"
  by (auto simp: deleteTarget_def)

lemma updateIncident_Inr:
  "updateIncident (Some s) now i p = Inr (h, t) \<longleftrightarrow>
     (ip_status p \<noteq> None \<or> ip_endTime p \<noteq> None)
     \<and> (matched (\<lambda>r. inc_id r = i) (incidents s) = 0 \<or> incident_patch_ok p)
     \<and> h = \<lparr>affectedRows = matched (\<lambda>r. inc_id r = i) (incidents s), insertId = 0\<rparr>
     \<and> t = s\<lparr>incidents := update_rows (\<lambda>r. inc_id r = i)
                            (\<lambda>r. touch_incident now r (apply_incident_patch p r)) (incidents s)\<rparr>"
  by (auto simp: updateIncident_def Let_def)

lemmas write_Inr = createTarget_Inr updateTarget_Inr deleteTarget_Inr createCheck_Inr
  createUptimeRecord_Inr createIncident_Inr updateIncident_Inr

lemma touch_target_fields [simp]:
  "tgt_isActive (touch_target now r r') = tgt_isActive r'"
  "tgt_name (touch_target now r r') = tgt_name r'"
  by (simp_all add: touch_target_def)

lemma apply_target_patch_fields [simp]:
  "tgt_isActive (apply_target_patch p r) = upd_opt (tp_isActive p) (tgt_isActive r)"
  "tgt_name (apply_target_patch p r) = upd_opt (tp_name p) (tgt_name r)"
  by (simp_all add: apply_target_patch_def)

lemma touch_incident_fields [simp]:
  "inc_status (touch_incident now r r') = inc_status r'"
  "inc_endTime (touch_incident now r r') = inc_endTime r'"
  "inc_targetId (touch_incident now r r') = inc_targetId r'"
  "inc_startTime (touch_incident now r r') = inc_startTime r'"
  by (simp_all add: touch_incident_def)

lemma apply_incident_patch_fields [simp]:
  "inc_targetId (apply_incident_patch p r) = inc_targetId r"
  "inc_startTime (apply_incident_patch p r) = inc_startTime r"
  "inc_status (apply_incident_patch p r) = upd_opt (ip_status p) (inc_status r)"
  by (simp_all add: apply_incident_patch_def)

lemma mk_incident_fields [simp]:
  "inc_status (mk_incident now ni i) = ni_status ni" "inc_endTime (mk_incident now ni i) = None"
  "inc_targetId (mk_incident now ni i) = ni_targetId ni"
  by (simp_all add: mk_incident_def)

lemma row_keys [simp]:
  "tgt_id (mk_target now nt i) = i" "chk_id (mk_check now nc i) = i"
  "uh_id (mk_uptime now nu i) = i" "inc_id (mk_incident now ni i) = i"
  "tgt_id (touch_target now r r') = tgt_id r'" "tgt_id (apply_target_patch p r) = tgt_id r"
  "inc_id (touch_incident now q q') = inc_id q'" "inc_id (apply_incident_patch ip q) = inc_id q"
  by (simp_all add: mk_target_def mk_check_def mk_uptime_def mk_incident_def touch_target_def
      apply_target_patch_def touch_incident_def apply_incident_patch_def)

end
