(* ===== verification/Stats.thy ===== *)
theory Stats
  imports Db
begin

text \<open>
  The two derived reads of db.ts: \<open>calculateTargetUptime\<close> (the windowed uptime
  statistics) and \<open>getTargetStatus\<close> (the status of a target from its latest check).
  \<open>uptime_of\<close> is the arithmetic of lines 164--177 on the rows the query returned;
  the query has no \<open>ORDER BY\<close>, so the rows come in an order MySQL chooses, and
  \<open>uptime_spec\<close> states the same computation on the multiset of the rows: the
  refinement lemma \<open>uptime_of_refines\<close> shows that the order does not matter.
\<close>

subsection \<open>Uptime over a window\<close>

record uptime_stats =
  us_targetId :: row_id
  us_totalChecks :: nat
  us_successfulChecks :: nat
  us_uptimePercentage :: rat
  us_averageResponseTime :: int

text \<open>\<open>c.responseTime || 0\<close>: a check without a response time counts as 0 ms.\<close>

definition response_or_zero :: "monitoring_check \<Rightarrow> int" where
  "response_or_zero c = (case chk_responseTime c of None \<Rightarrow> 0 | Some v \<Rightarrow> v)"

definition is_success :: "monitoring_check \<Rightarrow> bool" where
  "is_success c \<longleftrightarrow> chk_isSuccess c = 1"

definition uptime_of :: "row_id \<Rightarrow> monitoring_check list \<Rightarrow> uptime_stats option" where
  "uptime_of tid cs =
     (if length cs = 0 then None
      else
        let successful = length (filter is_success cs);
            total = length cs;
            uptimePercentage = (of_nat successful / of_nat total) * 100;
            avgResponseTime = of_int (sum_list (map response_or_zero cs)) / of_nat total
        in Some \<lparr>us_targetId = tid, us_totalChecks = total, us_successfulChecks = successful,
                 us_uptimePercentage = to_fixed2 uptimePercentage,
                 us_averageResponseTime = js_round avgResponseTime\<rparr>)"

text \<open>\<open>calculateTargetUptime(targetId, hoursBack)\<close> (lines 151--178).\<close>

definition window :: "db_state \<Rightarrow> timestamp \<Rightarrow> row_id \<Rightarrow> int \<Rightarrow> monitoring_check list" where
  "window s now tid hoursBack =
     filter (\<lambda>c. chk_targetId c = tid \<and> hours_ago now hoursBack \<le> chk_checkedAt c) (checks s)"

definition calculateTargetUptime :: "db_state option \<Rightarrow> timestamp \<Rightarrow> row_id \<Rightarrow> int \<Rightarrow> uptime_stats option" where
  "calculateTargetUptime db now tid hoursBack =
     (case db of None \<Rightarrow> None | Some s \<Rightarrow> uptime_of tid (window s now tid hoursBack))"

subsection \<open>Status from the latest check\<close>

record target_status =
  st_targetId :: row_id
  isOnline :: bool
  lastCheckTime :: timestamp
  st_statusCode :: "int option"
  st_responseTime :: "int option"
  st_errorMessage :: "string option"

definition status_of :: "row_id \<Rightarrow> monitoring_check \<Rightarrow> target_status" where
  "status_of tid c =
     \<lparr>st_targetId = tid, isOnline = (chk_isSuccess c = 1), lastCheckTime = chk_checkedAt c,
      st_statusCode = chk_statusCode c, st_responseTime = chk_responseTime c,
      st_errorMessage = chk_errorMessage c\<rparr>"

text \<open>\<open>getTargetStatus(targetId)\<close> (lines 180--201): \<open>ORDER BY checkedAt DESC LIMIT 1\<close>.\<close>

definition getTargetStatus :: "db_state option \<Rightarrow> row_id \<Rightarrow> target_status option" where
  "getTargetStatus db tid =
     (case db of
        None \<Rightarrow> None
      | Some s \<Rightarrow>
          (case take 1 (order_desc chk_checkedAt (filter (\<lambda>c. chk_targetId c = tid) (checks s))) of
             [] \<Rightarrow> None
           | c # _ \<Rightarrow> Some (status_of tid c)))"

declare getTargetStatus_def [query_simps] calculateTargetUptime_def [query_simps]

subsection \<open>The abstract contract of the uptime window\<close>

text \<open>The same statistics over the multiset of checks in the window.\<close>

definition uptime_spec :: "row_id \<Rightarrow> monitoring_check multiset \<Rightarrow> uptime_stats option" where
  "uptime_spec tid M =
     (if M = {#} then None
      else Some \<lparr>us_targetId = tid, us_totalChecks = size M,
                 us_successfulChecks = size (filter_mset is_success M),
                 us_uptimePercentage =
                   to_fixed2 (of_nat (size (filter_mset is_success M)) / of_nat (size M) * 100),
                 us_averageResponseTime =
                   js_round (of_int (sum_mset (image_mset response_or_zero M)) / of_nat (size M))\<rparr>)"

lemma uptime_of_refines: "uptime_of tid cs = uptime_spec tid (mset cs)"
proof -
  have "size (filter_mset is_success (mset cs)) = length (filter is_success cs)"
    by (metis mset_filter size_mset)
  moreover have "sum_mset (image_mset response_or_zero (mset cs)) = sum_list (map response_or_zero cs)"
    by (metis mset_map sum_mset_sum_list)
  ultimately show ?thesis
    by (simp add: uptime_of_def uptime_spec_def Let_def)
qed

lemma uptime_of_mset_eq:
  "mset cs = mset cs' \<Longrightarrow> uptime_of tid cs = uptime_of tid cs'"
  by (simp add: uptime_of_refines)

subsection \<open>The arithmetic of the statistics\<close>

lemma uptime_of_Some_iff:
  "uptime_of tid cs = Some r \<longleftrightarrow>
     cs \<noteq> [] \<and>
     r = \<lparr>us_targetId = tid, us_totalChecks = length cs,
          us_successfulChecks = length (filter is_success cs),
          us_uptimePercentage =
            of_int ((20000 * int (length (filter is_success cs)) + int (length cs)) div (2 * int (length cs))) / 100,
          us_averageResponseTime =
            (2 * sum_list (map response_or_zero cs) + int (length cs)) div (2 * int (length cs))\<rparr>"
proof (cases "cs = []")
  case True
  then show ?thesis by (simp add: uptime_of_def)
next
  case False
  let ?t = "int (length cs)" and ?s = "int (length (filter is_success cs))"
  have t: "0 < ?t" using False by simp
  have "to_fixed2 (of_nat (length (filter is_success cs)) / of_nat (length cs) * 100) =
        to_fixed2 (of_int ?s / of_int ?t * 100)"
    by simp
  also have "\<dots> = of_int ((20000 * ?s + ?t) div (2 * ?t)) / 100"
    using t by (rule to_fixed2_percent) simp
  finally have pct: "to_fixed2 (of_nat (length (filter is_success cs)) / of_nat (length cs) * 100) =
      of_int ((20000 * ?s + ?t) div (2 * ?t)) / 100" .
  have avg: "js_round (of_int (sum_list (map response_or_zero cs)) / of_nat (length cs)) =
      (2 * sum_list (map response_or_zero cs) + ?t) div (2 * ?t)"
    using js_round_div [OF t, of "sum_list (map response_or_zero cs)"] by simp
  from False pct avg show ?thesis
    by (auto simp: uptime_of_def Let_def)
qed

subsection \<open>The latest check\<close>

lemma getTargetStatus_Some_iff:
  "getTargetStatus (Some s) tid = Some st \<longleftrightarrow>
     (\<exists>c rest. order_desc chk_checkedAt (filter (\<lambda>c. chk_targetId c = tid) (checks s)) = c # rest
              \<and> st = status_of tid c)"
  by (cases "order_desc chk_checkedAt (filter (\<lambda>c. chk_targetId c = tid) (checks s))")
     (auto simp: getTargetStatus_def)

lemma getTargetStatus_None_conv:
  "getTargetStatus (Some s) tid = None \<longleftrightarrow> filter (\<lambda>c. chk_targetId c = tid) (checks s) = []"
  by (cases "order_desc chk_checkedAt (filter (\<lambda>c. chk_targetId c = tid) (checks s))")
     (auto simp: getTargetStatus_def)

lemma getTargetStatus_targetId: "getTargetStatus db tid = Some st \<Longrightarrow> st_targetId st = tid"
  by (auto simp: getTargetStatus_def status_of_def split: option.splits list.splits)

text \<open>A check newer than every other check of its target is the one the status
  reports.\<close>

lemma getTargetStatus_newest:
  assumes "checks s' = checks s @ [c]"
    and "\<forall>d \<in> set (checks s). chk_targetId d = chk_targetId c \<longrightarrow> chk_checkedAt d < chk_checkedAt c"
  shows "getTargetStatus (Some s') (chk_targetId c) = Some (status_of (chk_targetId c) c)"
proof -
  let ?tid = "chk_targetId c"
  have "\<forall>d \<in> set (filter (\<lambda>d. chk_targetId d = ?tid) (checks s)). chk_checkedAt d < chk_checkedAt c"
    using assms(2) by simp
  from order_desc_snoc_max [OF this] obtain rest where
    "order_desc chk_checkedAt (filter (\<lambda>d. chk_targetId d = ?tid) (checks s) @ [c]) = c # rest" ..
  moreover have "filter (\<lambda>d. chk_targetId d = ?tid) (checks s')
                 = filter (\<lambda>d. chk_targetId d = ?tid) (checks s) @ [c]"
    using assms(1) by simp
  ultimately show ?thesis
    unfolding getTargetStatus_def option.case by simp
qed

subsection \<open>Concrete windows\<close>

definition check_row :: "row_id \<Rightarrow> int \<Rightarrow> int option \<Rightarrow> timestamp \<Rightarrow> monitoring_check" where
  "check_row i ok rt ts =
     \<lparr>chk_id = i, chk_targetId = 1, chk_statusCode = (if ok = 1 then Some 200 else None),
      chk_responseTime = rt, chk_isSuccess = ok,
      chk_errorMessage = (if ok = 1 then None else Some ''timeout''), chk_checkedAt = ts\<rparr>"

text \<open>The example of the spec (section 8): target 1 checked at \<open>t0\<close> (success, 120 ms),
  \<open>t1\<close> (failure, timeout, no response time) and \<open>t2\<close> (success, 95 ms).\<close>

definition spec_example_store :: db_state where
  "spec_example_store = empty_db\<lparr>checks :=
     [check_row 1 1 (Some 120) 1000000, check_row 2 0 None 1060000, check_row 3 1 (Some 95) 1120000],
     checks_ai := 4\<rparr>"

definition near_perfect_store :: db_state where
  "near_perfect_store = empty_db\<lparr>checks :=
     replicate 19999 (check_row 1 1 (Some 100) 1000000) @ [check_row 2 0 None 1000000],
     checks_ai := 3\<rparr>"

lemma window_spec_example:
  "window spec_example_store 1200000 1 24 =
     [check_row 1 1 (Some 120) 1000000, check_row 2 0 None 1060000, check_row 3 1 (Some 95) 1120000]"
  by (simp add: window_def spec_example_store_def empty_db_def check_row_def hours_ago_def)

subsection \<open>Properties of the derived reads\<close>

text \<open>C5: the uptime statistics do not depend on the order of the rows: stores whose
  check tables hold the same rows in any order give the same result (the query has no
  \<open>ORDER BY\<close>).\<close>

theorem calculateTargetUptime_order_independent:
  "mset (checks s') = mset (checks s) \<Longrightarrow>
   calculateTargetUptime (Some s') now tid hoursBack = calculateTargetUptime (Some s) now tid hoursBack"
  by (simp add: calculateTargetUptime_def window_def uptime_of_refines)

theorem calculateTargetUptime_order_independent_witness:
  "mset (rev (checks spec_example_store)) = mset (checks spec_example_store)
   \<and> calculateTargetUptime (Some (spec_example_store\<lparr>checks := rev (checks spec_example_store)\<rparr>)) 1200000 1 24
     = calculateTargetUptime (Some spec_example_store) 1200000 1 24"
  using calculateTargetUptime_order_independent
    [of "spec_example_store\<lparr>checks := rev (checks spec_example_store)\<rparr>" spec_example_store 1200000 1 24]
  by simp

text \<open>C6: when there is a result, it counts at least one check, at most as many
  successes as checks, and its percentage lies between 0 and 100.\<close>

theorem calculateTargetUptime_bounds:
  "calculateTargetUptime db now tid hoursBack = Some r \<Longrightarrow>
   0 < us_totalChecks r \<and> us_successfulChecks r \<le> us_totalChecks r
   \<and> 0 \<le> us_uptimePercentage r \<and> us_uptimePercentage r \<le> 100"
proof -
  assume res: "calculateTargetUptime db now tid hoursBack = Some r"
  then obtain s where "uptime_of tid (window s now tid hoursBack) = Some r"
    by (auto simp: calculateTargetUptime_def split: option.splits)
  then obtain cs where cs: "cs \<noteq> []" and r: "r = \<lparr>us_targetId = tid, us_totalChecks = length cs,
      us_successfulChecks = length (filter is_success cs),
      us_uptimePercentage = of_int ((20000 * int (length (filter is_success cs)) + int (length cs))
                                    div (2 * int (length cs))) / 100,
      us_averageResponseTime = (2 * sum_list (map response_or_zero cs) + int (length cs)) div (2 * int (length cs))\<rparr>"
    by (auto simp: uptime_of_Some_iff)
  let ?t = "int (length cs)" and ?k = "int (length (filter is_success cs))"
  have t: "0 < ?t" using cs by simp
  have k: "?k \<le> ?t" by (simp add: length_filter_le)
  have lo: "0 \<le> (20000 * ?k + ?t) div (2 * ?t)" using t by (simp add: pos_imp_zdiv_nonneg_iff)
  have hi: "(20000 * ?k + ?t) div (2 * ?t) \<le> 10000" using t k by (rule percent_hundredths_le)
  show ?thesis using r cs lo hi by (simp add: length_filter_le)
qed

lemma uptime_of_spec_example:
  "uptime_of 1 [check_row 1 1 (Some 120) 1000000, check_row 2 0 None 1060000, check_row 3 1 (Some 95) 1120000]
   = Some \<lparr>us_targetId = 1, us_totalChecks = 3, us_successfulChecks = 2, us_uptimePercentage = 6667 / 100,
           us_averageResponseTime = 72\<rparr>"
  by (simp add: uptime_of_Some_iff is_success_def response_or_zero_def check_row_def)

theorem calculateTargetUptime_bounds_witness:
  "calculateTargetUptime (Some spec_example_store) 1200000 1 24 \<noteq> None
   \<and> us_successfulChecks (the (calculateTargetUptime (Some spec_example_store) 1200000 1 24)) \<le> 3
   \<and> us_uptimePercentage (the (calculateTargetUptime (Some spec_example_store) 1200000 1 24)) \<le> 100"
proof -
  have res: "calculateTargetUptime (Some spec_example_store) 1200000 1 24
     = Some \<lparr>us_targetId = 1, us_totalChecks = 3, us_successfulChecks = 2, us_uptimePercentage = 6667 / 100,
             us_averageResponseTime = 72\<rparr>"
    by (simp add: calculateTargetUptime_def window_spec_example uptime_of_spec_example)
  from calculateTargetUptime_bounds [OF res] res show ?thesis by simp
qed

text \<open>C7: the rounded percentage reads 100 exactly when at least 99.995\% of the checks
  succeeded, so a window with failed checks can report 100\% uptime.\<close>

theorem uptime_hundred_iff:
  "calculateTargetUptime db now tid hoursBack = Some r \<Longrightarrow>
   us_uptimePercentage r = 100 \<longleftrightarrow> 19999 * us_totalChecks r \<le> 20000 * us_successfulChecks r"
proof -
  assume "calculateTargetUptime db now tid hoursBack = Some r"
  then obtain cs where cs: "cs \<noteq> []" and r: "r = \<lparr>us_targetId = tid, us_totalChecks = length cs,
      us_successfulChecks = length (filter is_success cs),
      us_uptimePercentage = of_int ((20000 * int (length (filter is_success cs)) + int (length cs))
                                    div (2 * int (length cs))) / 100,
      us_averageResponseTime = (2 * sum_list (map response_or_zero cs) + int (length cs)) div (2 * int (length cs))\<rparr>"
    by (auto simp: calculateTargetUptime_def uptime_of_Some_iff split: option.splits)
  let ?t = "int (length cs)" and ?k = "int (length (filter is_success cs))"
  have t: "0 < ?t" using cs by simp
  have k: "?k \<le> ?t" by (simp add: length_filter_le)
  have "us_uptimePercentage r = 100 \<longleftrightarrow> (20000 * ?k + ?t) div (2 * ?t) = 10000"
    using r by simp
  also have "\<dots> \<longleftrightarrow> 19999 * ?t \<le> 20000 * ?k" using t k by (rule percent_hundredths_full)
  also have "\<dots> \<longleftrightarrow> 19999 * length cs \<le> 20000 * length (filter is_success cs)"
    by (metis of_nat_le_iff of_nat_mult of_nat_numeral)
  finally show ?thesis using r by simp
qed

lemma window_near_perfect:
  "window near_perfect_store 1000000 1 24 =
     replicate 19999 (check_row 1 1 (Some 100) 1000000) @ [check_row 2 0 None 1000000]"
  by (simp add: window_def near_perfect_store_def empty_db_def check_row_def hours_ago_def)

theorem uptime_hundred_iff_witness:
  "\<exists>r. calculateTargetUptime (Some near_perfect_store) 1000000 1 24 = Some r
       \<and> us_successfulChecks r < us_totalChecks r \<and> us_uptimePercentage r = 100"
proof -
  let ?cs = "replicate 19999 (check_row 1 1 (Some 100) 1000000) @ [check_row 2 0 None 1000000]"
  have succ: "length (filter is_success ?cs) = 19999"
    by (simp add: is_success_def check_row_def)
  obtain r where r: "calculateTargetUptime (Some near_perfect_store) 1000000 1 24 = Some r"
    by (simp add: calculateTargetUptime_def window_near_perfect uptime_of_def Let_def)
  then have "us_totalChecks r = 20000 \<and> us_successfulChecks r = 19999"
    using succ by (auto simp: calculateTargetUptime_def window_near_perfect uptime_of_def Let_def)
  with uptime_hundred_iff [OF r] r show ?thesis by auto
qed

text \<open>C8: the status of a target is \<open>null\<close> exactly when the target has no check.\<close>

theorem getTargetStatus_None_iff:
  "getTargetStatus (Some s) tid = None \<longleftrightarrow> (\<forall>c \<in> set (checks s). chk_targetId c \<noteq> tid)"
  by (simp add: getTargetStatus_None_conv filter_empty_conv)

theorem getTargetStatus_None_iff_witness:
  "getTargetStatus (Some spec_example_store) 2 = None \<and> getTargetStatus (Some spec_example_store) 1 \<noteq> None"
proof -
  have "\<forall>c \<in> set (checks spec_example_store). chk_targetId c \<noteq> 2"
    "\<not> (\<forall>c \<in> set (checks spec_example_store). chk_targetId c \<noteq> 1)"
    by (simp_all add: spec_example_store_def empty_db_def check_row_def)
  with getTargetStatus_None_iff [of spec_example_store 2] getTargetStatus_None_iff [of spec_example_store 1]
  show ?thesis by simp
qed

text \<open>C9: a status, when there is one, is the status of a check of that target with
  the greatest \<open>checkedAt\<close>: \<open>isOnline\<close> is that check's \<open>isSuccess = 1\<close>.\<close>

theorem getTargetStatus_latest:
  "getTargetStatus (Some s) tid = Some st \<Longrightarrow>
   \<exists>c \<in> set (checks s). chk_targetId c = tid \<and> st = status_of tid c
     \<and> (\<forall>c' \<in> set (checks s). chk_targetId c' = tid \<longrightarrow> chk_checkedAt c' \<le> chk_checkedAt c)"
proof -
  assume "getTargetStatus (Some s) tid = Some st"
  then obtain c rest where ord: "order_desc chk_checkedAt (filter (\<lambda>c. chk_targetId c = tid) (checks s)) = c # rest"
    and st: "st = status_of tid c"
    by (auto simp: getTargetStatus_Some_iff)
  from order_desc_Cons_mem [OF ord] have c: "c \<in> set (checks s)" "chk_targetId c = tid" by auto
  have "\<forall>c' \<in> set (checks s). chk_targetId c' = tid \<longrightarrow> chk_checkedAt c' \<le> chk_checkedAt c"
    using order_desc_Cons_max [OF ord] by auto
  with c st show ?thesis by blast
qed

theorem getTargetStatus_latest_witness:
  "getTargetStatus (Some spec_example_store) 1 = Some (status_of 1 (check_row 3 1 (Some 95) 1120000))
   \<and> isOnline (status_of 1 (check_row 3 1 (Some 95) 1120000))
   \<and> chk_checkedAt (check_row 1 1 (Some 120) 1000000) \<le> lastCheckTime (status_of 1 (check_row 3 1 (Some 95) 1120000))
   \<and> chk_checkedAt (check_row 2 0 None 1060000) \<le> lastCheckTime (status_of 1 (check_row 3 1 (Some 95) 1120000))"
proof -
  have res: "getTargetStatus (Some spec_example_store) 1 = Some (status_of 1 (check_row 3 1 (Some 95) 1120000))"
    by (simp add: query_simps spec_example_store_def empty_db_def check_row_def)
  from getTargetStatus_latest [OF res] obtain c where
    c: "status_of 1 (check_row 3 1 (Some 95) 1120000) = status_of 1 c"
    "\<forall>c' \<in> set (checks spec_example_store). chk_targetId c' = 1 \<longrightarrow> chk_checkedAt c' \<le> chk_checkedAt c"
    by blast
  have lt: "lastCheckTime (status_of 1 (check_row 3 1 (Some 95) 1120000)) = chk_checkedAt c"
    using c(1) by (simp add: status_of_def)
  have mem: "check_row 1 1 (Some 120) 1000000 \<in> set (checks spec_example_store)"
    "check_row 2 0 None 1060000 \<in> set (checks spec_example_store)"
    by (simp_all add: spec_example_store_def empty_db_def)
  from res c(2) mem lt show ?thesis by (simp add: status_of_def check_row_def)
qed

end
