(* ===== verification/Router.thy ===== *)
theory Router
  imports Stats
begin

text \<open>
  The tRPC router \<open>appRouter\<close> of \<open>src/server/routers.ts\<close>: one definition per
  procedure, in the file's order. A procedure first parses its input with zod (a failed
  parse is a \<open>BAD_REQUEST\<close>, \<open>Bad_request\<close> naming the field), fills in the zod
  defaults, and calls db.ts; an error thrown there reaches the client as an
  \<open>INTERNAL_SERVER_ERROR\<close> (\<open>Internal_error\<close>). zod's \<open>.url()\<close> check is the
  library's WHATWG URL parser, which the model takes as a parameter \<open>url_ok\<close>.
  Numbers are integers in the model; a non-integer \<open>z.number()\<close> is not modelled.
\<close>

datatype api_error = Bad_request string | Internal_error db_error

definition lift_db :: "db_error + 'a \<Rightarrow> api_error + 'a" where
  "lift_db r = (case r of Inl e \<Rightarrow> Inl (Internal_error e) | Inr x \<Rightarrow> Inr x)"

lemma lift_db_simps [simp]:
  "lift_db (Inl e) = Inl (Internal_error e)" "lift_db (Inr x) = Inr x"
  by (simp_all add: lift_db_def)

lemma lift_db_Inr [simp]: "lift_db r = Inr x \<longleftrightarrow> r = Inr x"
  by (cases r) simp_all

type_synonym 'a mutation = "api_error + (result_header \<times> 'a)"

subsection \<open>targets\<close>

text \<open>\<open>targets.list\<close> (lines 9--11) and \<open>targets.getById\<close> (lines 14--18).\<close>

definition targets_list :: "db_state option \<Rightarrow> monitoring_target list" where
  "targets_list db = getAllTargets db"

definition targets_getById :: "db_state option \<Rightarrow> row_id \<Rightarrow> monitoring_target option" where
  "targets_getById db i = getTargetById db i"

text \<open>The input of \<open>targets.create\<close> before zod fills in its defaults.\<close>

record create_target_input =
  cti_name :: string
  cti_url :: string
  cti_description :: "string option"
  cti_method :: "string option"
  cti_checkInterval :: "int option"
  cti_timeout :: "int option"
  cti_expectedStatusCode :: "int option"

definition create_target_defaults :: "create_target_input \<Rightarrow> new_target" where
  "create_target_defaults inp =
     \<lparr>nt_name = cti_name inp, nt_url = cti_url inp, nt_description = cti_description inp,
      nt_method = upd_opt (cti_method inp) ''GET'',
      nt_checkInterval = upd_opt (cti_checkInterval inp) 300,
      nt_timeout = upd_opt (cti_timeout inp) 10,
      nt_expectedStatusCode = upd_opt (cti_expectedStatusCode inp) 200\<rparr>"

text \<open>\<open>targets.create\<close> (lines 21--35): \<open>name\<close> has \<open>.min(1)\<close>, \<open>url\<close> has
  \<open>.url()\<close>; nothing bounds \<open>checkInterval\<close> or \<open>timeout\<close>.\<close>

definition targets_create ::
  "(string \<Rightarrow> bool) \<Rightarrow> db_state option \<Rightarrow> timestamp \<Rightarrow> create_target_input \<Rightarrow> db_state mutation" where
  "targets_create url_ok db now inp =
     (if length (cti_name inp) < 1 then Inl (Bad_request ''name'')
      else if \<not> url_ok (cti_url inp) then Inl (Bad_request ''url'')
      else lift_db (createTarget db now (create_target_defaults inp)))"

text \<open>\<open>targets.update\<close> (lines 38--54): every field optional; \<open>url\<close>, when given,
  must parse; \<open>name\<close> carries no \<open>.min(1)\<close> here. (The suffix keeps the name
  apart from the record update \<open>targets_update\<close> of \<open>db_state\<close>.)\<close>

definition targets_update_proc ::
  "(string \<Rightarrow> bool) \<Rightarrow> db_state option \<Rightarrow> timestamp \<Rightarrow> row_id \<Rightarrow> target_patch \<Rightarrow> db_state mutation" where
  "targets_update_proc url_ok db now i updates =
     (if (case tp_url updates of None \<Rightarrow> False | Some u \<Rightarrow> \<not> url_ok u) then Inl (Bad_request ''url'')
      else lift_db (updateTarget db now i updates))"

text \<open>\<open>targets.delete\<close> (lines 57--61).\<close>

definition targets_delete :: "db_state option \<Rightarrow> row_id \<Rightarrow> db_state mutation" where
  "targets_delete db i = lift_db (deleteTarget db i)"

subsection \<open>checks\<close>

text \<open>\<open>checks.getByTargetId\<close> (lines 67--76, \<open>limit\<close> defaults to 100) and
  \<open>checks.getRecent\<close> (lines 79--88, \<open>hoursBack\<close> defaults to 24).\<close>

definition checks_getByTargetId :: "db_state option \<Rightarrow> row_id \<Rightarrow> nat option \<Rightarrow> monitoring_check list" where
  "checks_getByTargetId db tid limit = getChecksByTargetId db tid (upd_opt limit 100)"

definition checks_getRecent :: "db_state option \<Rightarrow> timestamp \<Rightarrow> row_id \<Rightarrow> int option \<Rightarrow> monitoring_check list" where
  "checks_getRecent db now tid hoursBack = getRecentChecksByTargetId db now tid (upd_opt hoursBack 24)"

text \<open>\<open>checks.create\<close> (lines 91--103): the entry point through which a prober
  records a result. It inserts the check and does nothing else.\<close>

definition checks_create :: "db_state option \<Rightarrow> timestamp \<Rightarrow> new_check \<Rightarrow> db_state mutation" where
  "checks_create db now nc = lift_db (createCheck db now nc)"

subsection \<open>history\<close>

text \<open>\<open>history.getByTargetId\<close> (lines 109--123, \<open>period\<close> defaults to daily,
  \<open>daysBack\<close> to 30) and \<open>history.create\<close> (lines 126--140).\<close>

definition history_getByTargetId ::
  "db_state option \<Rightarrow> timestamp \<Rightarrow> row_id \<Rightarrow> period option \<Rightarrow> int option \<Rightarrow> uptime_history list" where
  "history_getByTargetId db now tid per daysBack =
     getUptimeHistoryByTargetId db now tid (upd_opt per Daily) (upd_opt daysBack 30)"

definition history_create :: "db_state option \<Rightarrow> timestamp \<Rightarrow> new_uptime \<Rightarrow> db_state mutation" where
  "history_create db now nu = lift_db (createUptimeRecord db now nu)"

subsection \<open>stats\<close>

text \<open>\<open>stats.getUptime\<close> (lines 146--155) and \<open>stats.getStatus\<close> (lines 158--162).\<close>

definition stats_getUptime :: "db_state option \<Rightarrow> timestamp \<Rightarrow> row_id \<Rightarrow> int option \<Rightarrow> uptime_stats option" where
  "stats_getUptime db now tid hoursBack = calculateTargetUptime db now tid (upd_opt hoursBack 24)"

definition stats_getStatus :: "db_state option \<Rightarrow> row_id \<Rightarrow> target_status option" where
  "stats_getStatus db tid = getTargetStatus db tid"

text \<open>
  \<open>stats.getAllStatus\<close> (lines 165--171): one \<open>getTargetStatus\<close> per active
  target (\<open>Promise.all\<close> of reads, evaluated here against one store), then
  \<open>filter((s) => s !== null)\<close>.
\<close>

definition stats_getAllStatus :: "db_state option \<Rightarrow> target_status list" where
  "stats_getAllStatus db =
     map the (filter (\<lambda>st. st \<noteq> None) (map (\<lambda>t. getTargetStatus db (tgt_id t)) (getAllTargets db)))"

subsection \<open>incidents\<close>

text \<open>\<open>incidents.getByTargetId\<close> (lines 177--186, \<open>limit\<close> defaults to 50).\<close>

definition incidents_getByTargetId :: "db_state option \<Rightarrow> row_id \<Rightarrow> nat option \<Rightarrow> incident list" where
  "incidents_getByTargetId db tid limit = getIncidentsByTargetId db tid (upd_opt limit 50)"

text \<open>\<open>incidents.create\<close> (lines 189--204): an incident with status \<open>"ongoing"\<close>.\<close>

definition incidents_create ::
  "db_state option \<Rightarrow> timestamp \<Rightarrow> row_id \<Rightarrow> timestamp \<Rightarrow> string option \<Rightarrow> db_state mutation" where
  "incidents_create db now tid startTime reason =
     lift_db (createIncident db now
       \<lparr>ni_targetId = tid, ni_startTime = startTime, ni_reason = reason, ni_status = Ongoing\<rparr>)"

text \<open>\<open>incidents.resolve\<close> (lines 207--218): \<open>status = "resolved"\<close>,
  \<open>endTime = new Date()\<close>.\<close>

definition incidents_resolve :: "db_state option \<Rightarrow> timestamp \<Rightarrow> row_id \<Rightarrow> db_state mutation" where
  "incidents_resolve db now i =
     lift_db (updateIncident db now i \<lparr>ip_status = Some Resolved, ip_endTime = Some now\<rparr>)"

declare targets_list_def [query_simps] targets_getById_def [query_simps] checks_getByTargetId_def [query_simps]
  checks_getRecent_def [query_simps] history_getByTargetId_def [query_simps] stats_getUptime_def [query_simps]
  stats_getStatus_def [query_simps] stats_getAllStatus_def [query_simps] incidents_getByTargetId_def [query_simps]

subsection \<open>Concrete stores\<close>

definition target_row :: "row_id \<Rightarrow> int \<Rightarrow> monitoring_target" where
  "target_row i active =
     \<lparr>tgt_id = i, tgt_name = ''service'', tgt_url = ''https://example.com'', tgt_description = None,
      tgt_method = ''GET'', tgt_checkInterval = 300, tgt_timeout = 10, tgt_expectedStatusCode = 200,
      tgt_isActive = active, tgt_createdAt = 1000, tgt_updatedAt = 1000\<rparr>"

definition incident_row :: "row_id \<Rightarrow> row_id \<Rightarrow> timestamp \<Rightarrow> incident" where
  "incident_row i tid st =
     \<lparr>inc_id = i, inc_targetId = tid, inc_startTime = st, inc_endTime = None, inc_status = Ongoing,
      inc_reason = Some ''timeout'', inc_createdAt = st, inc_updatedAt = st\<rparr>"

text \<open>Two active targets: target 1 with the three checks of the spec's example and an
  ongoing incident, target 2 with no check yet.\<close>

definition two_targets_store :: db_state where
  "two_targets_store = spec_example_store\<lparr>targets := [target_row 1 1, target_row 2 1], targets_ai := 3,
     incidents := [incident_row 1 1 1060000], incidents_ai := 2\<rparr>"

definition deactivate :: target_patch where
  "deactivate = \<lparr>tp_name = None, tp_url = None, tp_description = None, tp_checkInterval = None,
     tp_timeout = None, tp_expectedStatusCode = None, tp_isActive = Some 0\<rparr>"

lemmas router_eval = two_targets_store_def spec_example_store_def empty_db_def target_row_def
  incident_row_def check_row_def

subsection \<open>Properties of the procedures\<close>

text \<open>C10: \<open>stats.getAllStatus\<close> lists one status for each active target that has at
  least one check, in the order of the targets, and leaves out the active targets that
  have none (the spec asks for them to be listed with an unknown status).\<close>

theorem getAllStatus_only_checked:
  "map st_targetId (stats_getAllStatus (Some s))
   = map tgt_id (filter (\<lambda>t. \<exists>c \<in> set (checks s). chk_targetId c = tgt_id t) (getAllTargets (Some s)))"
  unfolding stats_getAllStatus_def
proof (rule map_the_filter_map)
  fix t
  show "getTargetStatus (Some s) (tgt_id t) = None \<longleftrightarrow> \<not> (\<exists>c \<in> set (checks s). chk_targetId c = tgt_id t)"
    by (simp add: getTargetStatus_None_conv filter_empty_conv)
next
  fix t st
  show "getTargetStatus (Some s) (tgt_id t) = Some st \<Longrightarrow> st_targetId st = tgt_id t"
    by (rule getTargetStatus_targetId)
qed

theorem getAllStatus_only_checked_witness:
  "map tgt_id (getAllTargets (Some two_targets_store)) = [1, 2]
   \<and> map st_targetId (stats_getAllStatus (Some two_targets_store)) = [1]"
proof -
  have "map tgt_id (filter (\<lambda>t. \<exists>c \<in> set (checks two_targets_store). chk_targetId c = tgt_id t)
          (getAllTargets (Some two_targets_store))) = [1]"
    by (simp add: getAllTargets_def router_eval)
  then show ?thesis
    using getAllStatus_only_checked [of two_targets_store]
    by (simp add: getAllTargets_def router_eval)
qed

text \<open>C11: deactivating a target (\<open>targets.update\<close> with \<open>isActive = 0\<close>) removes it
  from \<open>targets.list\<close> and leaves its incidents retrievable, as the spec's example
  asks.\<close>

theorem deactivate_keeps_incidents:
  "targets_update_proc url_ok (Some s) now i deactivate = Inr (h, t) \<Longrightarrow>
   (\<forall>x \<in> set (targets_list (Some t)). tgt_id x \<noteq> i)
   \<and> incidents_getByTargetId (Some t) i limit = incidents_getByTargetId (Some s) i limit"
proof -
  let ?g = "\<lambda>r. touch_target now r (apply_target_patch deactivate r)"
  assume "targets_update_proc url_ok (Some s) now i deactivate = Inr (h, t)"
  then have t: "t = s\<lparr>targets := update_rows (\<lambda>r. tgt_id r = i) ?g (targets s)\<rparr>"
    unfolding targets_update_proc_def by (simp add: deactivate_def updateTarget_Inr)
  have "tgt_id x \<noteq> i" if x: "x \<in> set (targets_list (Some t))" for x
  proof -
    from x t have act: "tgt_isActive x = 1"
      and mem: "x \<in> set (update_rows (\<lambda>r. tgt_id r = i) ?g (targets s))"
      by (simp_all add: targets_list_def getAllTargets_def)
    from mem show ?thesis
    proof (cases rule: update_rows_memE)
      case (2 r)
      then have "tgt_isActive x = 0" by (simp add: deactivate_def)
      with act show ?thesis by simp
    qed simp
  qed
  moreover have "incidents t = incidents s" using t by simp
  ultimately show ?thesis by (simp add: incidents_getByTargetId_def getIncidentsByTargetId_def)
qed

theorem deactivate_keeps_incidents_witness:
  "\<exists>h t. targets_update_proc (\<lambda>_. True) (Some two_targets_store) 5000000 1 deactivate = Inr (h, t)
     \<and> map tgt_id (targets_list (Some t)) = [2]
     \<and> length (incidents_getByTargetId (Some t) 1 None) = 1"
proof -
  let ?t = "two_targets_store\<lparr>targets := [(target_row 1 0)\<lparr>tgt_updatedAt := 5000000\<rparr>, target_row 2 1]\<rparr>"
  have run: "targets_update_proc (\<lambda>_. True) (Some two_targets_store) 5000000 1 deactivate
     = Inr (\<lparr>affectedRows = 1, insertId = 0\<rparr>, ?t)"
    by (simp add: targets_update_proc_def updateTarget_Inr deactivate_def patch_empty_def
        target_row_error_def apply_target_patch_def touch_target_def update_rows_def router_eval
        varchar_ok_def text_ok_def int_col_ok_def int32_max_def sql_now_def)
  have "length (incidents_getByTargetId (Some two_targets_store) 1 None) = 1"
    by (simp add: query_simps router_eval)
  moreover have "map tgt_id (targets_list (Some ?t)) = [2]"
    by (simp add: query_simps router_eval)
  ultimately show ?thesis using deactivate_keeps_incidents [OF run] run by auto
qed

text \<open>C12: without a database every write fails with \<open>Database not available\<close>,
  while every read answers as if there were no data.\<close>

theorem no_database_behaviour:
  "createTarget None now nt = Inl Database_not_available
   \<and> updateTarget None now i p = Inl Database_not_available
   \<and> deleteTarget None i = Inl Database_not_available
   \<and> createCheck None now nc = Inl Database_not_available
   \<and> createUptimeRecord None now nu = Inl Database_not_available
   \<and> createIncident None now ni = Inl Database_not_available
   \<and> updateIncident None now i ip = Inl Database_not_available
   \<and> getAllTargets None = [] \<and> getTargetById None i = None
   \<and> getChecksByTargetId None tid limit = [] \<and> getRecentChecksByTargetId None now tid hb = []
   \<and> getUptimeHistoryByTargetId None now tid per days = []
   \<and> getIncidentsByTargetId None tid limit = []
   \<and> calculateTargetUptime None now tid hb = None \<and> getTargetStatus None tid = None"
  by (simp add: createTarget_def updateTarget_def deleteTarget_def createCheck_def createUptimeRecord_def
      createIncident_def updateIncident_def query_simps)

text \<open>C13: \<open>incidents.resolve\<close> of an id that names no incident succeeds, reports 0
  affected rows and changes nothing (the spec asks update paths to reject an unknown
  id).\<close>

theorem resolve_unknown_id:
  "(\<forall>r \<in> set (incidents s). inc_id r \<noteq> i) \<Longrightarrow>
   incidents_resolve (Some s) now i = Inr (\<lparr>affectedRows = 0, insertId = 0\<rparr>, s)"
proof -
  assume none: "\<forall>r \<in> set (incidents s). inc_id r \<noteq> i"
  then have "matched (\<lambda>r. inc_id r = i) (incidents s) = 0"
    by (simp add: matched_def filter_empty_conv)
  moreover have "update_rows (\<lambda>r. inc_id r = i) f (incidents s) = incidents s" for f
    using none by (simp add: update_rows_no_match)
  ultimately show ?thesis
    by (simp add: incidents_resolve_def updateIncident_def Let_def)
qed

theorem resolve_unknown_id_witness:
  "incidents_resolve (Some two_targets_store) 2000000 7 = Inr (\<lparr>affectedRows = 0, insertId = 0\<rparr>, two_targets_store)"
proof -
  have h: "\<forall>r \<in> set (incidents two_targets_store). inc_id r \<noteq> 7"
    by (simp add: router_eval)
  with resolve_unknown_id [OF h] show ?thesis by simp
qed

text \<open>C14: a successful \<open>incidents.resolve\<close> sets every incident with that id to
  \<open>resolved\<close> with \<open>endTime\<close> the call's clock (rounded to the second), keeps every
  other incident, and reports the number of incidents with that id.\<close>

theorem resolve_effect:
  "incidents_resolve (Some s) now i = Inr (h, t) \<Longrightarrow>
   (\<forall>r \<in> set (incidents t). inc_id r = i \<longrightarrow> inc_status r = Resolved \<and> inc_endTime r = Some (ts_round now))
   \<and> (\<forall>r \<in> set (incidents s). inc_id r \<noteq> i \<longrightarrow> r \<in> set (incidents t))
   \<and> affectedRows h = matched (\<lambda>r. inc_id r = i) (incidents s)"
proof -
  let ?p = "\<lparr>ip_status = Some Resolved, ip_endTime = Some now\<rparr>"
  let ?g = "\<lambda>r. touch_incident now r (apply_incident_patch ?p r)"
  assume "incidents_resolve (Some s) now i = Inr (h, t)"
  then have t: "incidents t = update_rows (\<lambda>r. inc_id r = i) ?g (incidents s)"
    and h: "affectedRows h = matched (\<lambda>r. inc_id r = i) (incidents s)"
    by (auto simp: incidents_resolve_def updateIncident_Inr)
  have "inc_status r = Resolved \<and> inc_endTime r = Some (ts_round now)"
    if r: "r \<in> set (incidents t)" and i: "inc_id r = i" for r
  proof -
    from r t have "r \<in> set (update_rows (\<lambda>r. inc_id r = i) ?g (incidents s))" by simp
    then show ?thesis
    proof (cases rule: update_rows_memE)
      case 1
      with i show ?thesis by simp
    next
      case (2 q)
      then show ?thesis by (simp add: apply_incident_patch_def)
    qed
  qed
  moreover have "\<forall>r \<in> set (incidents s). inc_id r \<noteq> i \<longrightarrow> r \<in> set (incidents t)"
    using t by (auto simp: set_update_rows)
  ultimately show ?thesis using h by blast
qed

definition two_targets_resolved :: "timestamp \<Rightarrow> db_state" where
  "two_targets_resolved now = two_targets_store\<lparr>incidents :=
     [(incident_row 1 1 1060000)\<lparr>inc_status := Resolved, inc_endTime := Some (ts_round now),
                                 inc_updatedAt := sql_now now\<rparr>]\<rparr>"

lemma resolve_two_targets:
  "ts_ok now \<Longrightarrow>
   incidents_resolve (Some two_targets_store) now 1 = Inr (\<lparr>affectedRows = 1, insertId = 0\<rparr>, two_targets_resolved now)"
  by (simp add: incidents_resolve_def updateIncident_Inr two_targets_resolved_def matched_def
      update_rows_def touch_incident_def apply_incident_patch_def incident_patch_ok_def router_eval)

theorem resolve_effect_witness:
  "incidents_resolve (Some two_targets_store) 2000000 1
     = Inr (\<lparr>affectedRows = 1, insertId = 0\<rparr>, two_targets_resolved 2000000)
   \<and> inc_status (hd (incidents (two_targets_resolved 2000000))) = Resolved
   \<and> inc_endTime (hd (incidents (two_targets_resolved 2000000))) = Some 2000000"
proof -
  have ok: "ts_ok 2000000" by (simp add: ts_ok_def ts_round_def int32_max_def)
  have mem: "hd (incidents (two_targets_resolved 2000000)) \<in> set (incidents (two_targets_resolved 2000000))"
    "inc_id (hd (incidents (two_targets_resolved 2000000))) = 1"
    by (simp_all add: two_targets_resolved_def router_eval)
  from resolve_effect [OF resolve_two_targets [OF ok]] resolve_two_targets [OF ok] mem
  show ?thesis by (simp add: ts_round_def)
qed

text \<open>C15: \<open>incidents.resolve\<close> succeeds whenever the clock fits a \<open>timestamp\<close>
  column: it checks neither that the incident exists, nor that it is still ongoing, nor
  that the end time is not before the start time.\<close>

theorem resolve_always_succeeds:
  "ts_ok now \<Longrightarrow> \<exists>h t. incidents_resolve (Some s) now i = Inr (h, t)"
  by (simp add: incidents_resolve_def updateIncident_def Let_def incident_patch_ok_def)

theorem resolve_always_succeeds_witness:
  "ts_ok 1000000
   \<and> (\<exists>h t. incidents_resolve (Some two_targets_store) 1000000 1 = Inr (h, t))
   \<and> (\<exists>r \<in> set (incidents (two_targets_resolved 1000000)).
        inc_id r = 1 \<and> the (inc_endTime r) < inc_startTime r)"
proof -
  have ok: "ts_ok 1000000" by (simp add: ts_ok_def ts_round_def int32_max_def)
  have "\<exists>r \<in> set (incidents (two_targets_resolved 1000000)). inc_id r = 1 \<and> the (inc_endTime r) < inc_startTime r"
    by (simp add: two_targets_resolved_def incident_row_def ts_round_def)
  with resolve_always_succeeds [OF ok, of two_targets_store 1] ok show ?thesis by blast
qed

text \<open>C16: a \<open>targets.update\<close> that carries nothing but the id fails: drizzle has no
  value to set.\<close>

theorem update_nothing_fails:
  "patch_empty p \<Longrightarrow>
   targets_update_proc url_ok (Some s) now i p = Inl (Internal_error No_values_to_set)"
  by (simp add: targets_update_proc_def updateTarget_def patch_empty_def)

theorem update_nothing_fails_witness:
  "patch_empty (deactivate\<lparr>tp_isActive := None\<rparr>)
   \<and> targets_update_proc (\<lambda>_. True) (Some two_targets_store) 1000 1 (deactivate\<lparr>tp_isActive := None\<rparr>)
     = Inl (Internal_error No_values_to_set)"
proof -
  have e: "patch_empty (deactivate\<lparr>tp_isActive := None\<rparr>)" by (simp add: patch_empty_def deactivate_def)
  with update_nothing_fails [OF e] show ?thesis by simp
qed

text \<open>C17: an incident whose start time lies outside the range of a MySQL
  \<open>TIMESTAMP\<close> (from 2038-01-19 03:14:07.5 UTC on, or before the epoch's first
  second) is refused with an incorrect-datetime error.\<close>

lemma ts_ok_iff: "ts_ok t \<longleftrightarrow> 500 \<le> t \<and> t < 2147483647500"
  by (auto simp: ts_ok_def ts_round_def int32_max_def)

theorem incident_start_out_of_range:
  "int_col_ok tid \<Longrightarrow> incidents_ai s \<le> int32_max \<Longrightarrow> \<not> ts_ok st \<Longrightarrow>
   incidents_create (Some s) now tid st reason = Inl (Internal_error (Incorrect_datetime ''startTime''))"
  by (simp add: incidents_create_def createIncident_def insert_row_def next_id_def incident_row_error_def
      mk_incident_def)

theorem incident_start_out_of_range_witness:
  "\<not> ts_ok 2147483647500
   \<and> incidents_create (Some two_targets_store) 1000 1 2147483647500 None
     = Inl (Internal_error (Incorrect_datetime ''startTime''))"
proof -
  have a: "int_col_ok 1" by simp
  have b: "incidents_ai two_targets_store \<le> int32_max" by (simp add: router_eval int32_max_def)
  have c: "\<not> ts_ok 2147483647500" by (simp add: ts_ok_iff)
  from incident_start_out_of_range [OF a b c] c show ?thesis by simp
qed

text \<open>C18: \<open>history.create\<close> is a plain insert, not an upsert: recording a bucket
  adds one more row with the same target, period and timestamp each time.\<close>

definition same_bucket :: "new_uptime \<Rightarrow> uptime_history \<Rightarrow> bool" where
  "same_bucket nu u \<longleftrightarrow> uh_targetId u = nu_targetId nu \<and> uh_period u = nu_period nu
     \<and> uh_timestamp u = ts_round (nu_timestamp nu)"

theorem history_create_not_upsert:
  "history_create (Some s) now nu = Inr (h, t) \<Longrightarrow>
   length (filter (same_bucket nu) (history t)) = Suc (length (filter (same_bucket nu) (history s)))"
  by (simp add: history_create_def createUptimeRecord_Inr same_bucket_def mk_uptime_def)

definition bucket_example :: new_uptime where
  "bucket_example = \<lparr>nu_targetId = 1, nu_period = Hourly, nu_timestamp = 3600000, nu_totalChecks = 3,
     nu_successfulChecks = 5, nu_uptimePercentage = ''166.67'', nu_averageResponseTime = None\<rparr>"

definition store_bucket_once :: db_state where
  "store_bucket_once = empty_db\<lparr>history := [mk_uptime 4000000 bucket_example 1], history_ai := 2\<rparr>"

definition store_bucket_twice :: db_state where
  "store_bucket_twice = empty_db\<lparr>history := [mk_uptime 4000000 bucket_example 1,
     mk_uptime 4000000 bucket_example 2], history_ai := 3\<rparr>"

lemma history_create_bucket_twice:
  "history_create (Some empty_db) 4000000 bucket_example = Inr (\<lparr>affectedRows = 1, insertId = 1\<rparr>, store_bucket_once)"
  "history_create (Some store_bucket_once) 4000000 bucket_example = Inr (\<lparr>affectedRows = 1, insertId = 2\<rparr>, store_bucket_twice)"
  by (simp_all add: history_create_def createUptimeRecord_Inr store_bucket_once_def store_bucket_twice_def
      uptime_row_error_def bucket_example_def mk_uptime_def empty_db_def column_simps)

theorem history_create_not_upsert_witness:
  "length (filter (same_bucket bucket_example) (history store_bucket_twice)) = 2"
proof -
  have "length (filter (same_bucket bucket_example) (history store_bucket_once)) = 1"
    by (simp add: store_bucket_once_def same_bucket_def mk_uptime_def bucket_example_def empty_db_def)
  with history_create_not_upsert [OF history_create_bucket_twice(2)] show ?thesis by simp
qed

text \<open>C19: nothing relates the totals of a bucket: \<open>history.create\<close> stores any
  \<open>totalChecks\<close>, \<open>successfulChecks\<close> and \<open>uptimePercentage\<close> its columns can hold,
  such as more successful checks than checks or a percentage above 100 (the spec's
  invariants \<open>successfulChecks \<le> totalChecks\<close> and the percentage formula).\<close>

theorem history_accepts_inconsistent_bucket:
  assumes "history_ai s \<le> int32_max"
    and "uptime_row_error (nu_timestamp nu) (mk_uptime now nu (history_ai s)) = None"
    and "int_col_ok n" "int_col_ok k" "decimal_syntax_ok p" "decimal52_range_ok p"
  shows "\<exists>h t. history_create (Some s) now
                  (nu\<lparr>nu_totalChecks := n, nu_successfulChecks := k, nu_uptimePercentage := p\<rparr>) = Inr (h, t)
                \<and> last (history t) = mk_uptime now
                  (nu\<lparr>nu_totalChecks := n, nu_successfulChecks := k, nu_uptimePercentage := p\<rparr>) (history_ai s)"
  using assms
  by (simp add: history_create_def createUptimeRecord_Inr uptime_row_error_def mk_uptime_def
      del: first_error.simps)

theorem history_accepts_inconsistent_bucket_witness:
  "\<exists>h t. history_create (Some empty_db) 4000000
          (bucket_example\<lparr>nu_totalChecks := 3, nu_successfulChecks := 5, nu_uptimePercentage := ''166.67''\<rparr>)
          = Inr (h, t)
        \<and> last (history t) = mk_uptime 4000000
          (bucket_example\<lparr>nu_totalChecks := 3, nu_successfulChecks := 5, nu_uptimePercentage := ''166.67''\<rparr>) 1"
proof -
  have h: "history_ai empty_db \<le> int32_max"
    "uptime_row_error (nu_timestamp bucket_example) (mk_uptime 4000000 bucket_example (history_ai empty_db)) = None"
    "int_col_ok 3" "int_col_ok 5" "decimal_syntax_ok ''166.67''" "decimal52_range_ok ''166.67''"
    by (simp_all add: empty_db_def uptime_row_error_def bucket_example_def mk_uptime_def column_simps)
  from history_accepts_inconsistent_bucket [OF h] show ?thesis by (simp add: empty_db_def)
qed

text \<open>C32. \<open>checks.getRecent\<close> returns exactly the checks of the target no older
  than \<open>hoursBack\<close> hours (24 when omitted), newest first.\<close>

theorem checks_getRecent_window:
  "mset (checks_getRecent (Some s) now tid hb)
     = mset (filter (\<lambda>c. chk_targetId c = tid \<and> hours_ago now (upd_opt hb 24) \<le> chk_checkedAt c) (checks s))
   \<and> sorted_desc chk_checkedAt (checks_getRecent (Some s) now tid hb)"
  by (simp add: checks_getRecent_def getRecentChecksByTargetId_def sorted_desc_order_desc)

end
