(* ===== verification/Api.thy ===== *)
theory Api
  imports Router
begin

text \<open>
  The server as a state machine. A step is one successful call of a mutating procedure
  of \<open>appRouter\<close> (any input, any clock, any outcome of the URL check) against the
  current store; reads change nothing and calls that fail leave the store as it was.
  Clients call the procedures in any order and the server runs each as its own
  statement, so the reachable stores are those of any sequence of steps from the empty
  store. The section closes with what every step keeps: append-only checks and history, and the agreement of \<open>status\<close> and
  \<open>endTime\<close> of incidents.
\<close>

subsection \<open>The step relation\<close>

inductive api_step :: "db_state \<Rightarrow> db_state \<Rightarrow> bool" where
  targets_create: "targets_create url_ok (Some s) now inp = Inr (h, t) \<Longrightarrow> api_step s t"
| targets_update_proc: "targets_update_proc url_ok (Some s) now i p = Inr (h, t) \<Longrightarrow> api_step s t"
| targets_delete: "targets_delete (Some s) i = Inr (h, t) \<Longrightarrow> api_step s t"
| checks_create: "checks_create (Some s) now nc = Inr (h, t) \<Longrightarrow> api_step s t"
| history_create: "history_create (Some s) now nu = Inr (h, t) \<Longrightarrow> api_step s t"
| incidents_create: "incidents_create (Some s) now tid st reason = Inr (h, t) \<Longrightarrow> api_step s t"
| incidents_resolve: "incidents_resolve (Some s) now i = Inr (h, t) \<Longrightarrow> api_step s t"

inductive reachable :: "db_state \<Rightarrow> bool" where
  init: "reachable empty_db"
| step: "reachable s \<Longrightarrow> api_step s t \<Longrightarrow> reachable t"

text \<open>Rule inversion: a step is one of the seven writes, with its new store.\<close>

lemma api_step_cases:
  assumes "api_step s t"
  obtains (target_insert) now nt h where "createTarget (Some s) now nt = Inr (h, t)"
    | (target_update) now i p h where "updateTarget (Some s) now i p = Inr (h, t)"
    | (target_delete) i h where "deleteTarget (Some s) i = Inr (h, t)"
    | (check_insert) now nc h where "createCheck (Some s) now nc = Inr (h, t)"
    | (history_insert) now nu h where "createUptimeRecord (Some s) now nu = Inr (h, t)"
    | (incident_insert) now ni h where "createIncident (Some s) now ni = Inr (h, t)" and "ni_status ni = Ongoing"
    | (incident_resolve) now i h where
        "updateIncident (Some s) now i \<lparr>ip_status = Some Resolved, ip_endTime = Some now\<rparr> = Inr (h, t)"
  using assms
proof cases
  case (targets_create url_ok now inp h)
  then show ?thesis
    by (auto simp: targets_create_def split: if_splits intro: that(1))
next
  case (targets_update_proc url_ok now i p h)
  then show ?thesis
    by (auto simp: targets_update_proc_def split: if_splits intro: that(2))
qed (auto simp: targets_delete_def checks_create_def history_create_def incidents_create_def
       incidents_resolve_def intro: that)

subsection \<open>Invariants of the store\<close>

text \<open>\<open>status\<close> is \<open>ongoing\<close> exactly when \<open>endTime\<close> is unset: the two fields
  the code always writes together.\<close>

definition incidents_consistent :: "db_state \<Rightarrow> bool" where
  "incidents_consistent s \<longleftrightarrow> (\<forall>r \<in> set (incidents s). inc_status r = Ongoing \<longleftrightarrow> inc_endTime r = None)"

lemma api_step_incidents_consistent:
  assumes "api_step s t" and "incidents_consistent s"
  shows "incidents_consistent t"
  using assms(1)
proof (cases rule: api_step_cases)
  case (incident_insert now ni h)
  with assms(2) show ?thesis by (auto simp: incidents_consistent_def createIncident_Inr)
next
  case (incident_resolve now i h)
  with assms(2) show ?thesis
    by (auto simp: incidents_consistent_def updateIncident_Inr set_update_rows apply_incident_patch_def)
qed (use assms(2) in \<open>auto simp: incidents_consistent_def write_Inr\<close>)

text \<open>Checks and uptime rows are never changed or removed; incidents are never removed
  and keep their id, target and start time.\<close>

definition incident_keys :: "incident \<Rightarrow> row_id \<times> row_id \<times> timestamp" where
  "incident_keys r = (inc_id r, inc_targetId r, inc_startTime r)"

definition append_only :: "db_state \<Rightarrow> db_state \<Rightarrow> bool" where
  "append_only s t \<longleftrightarrow> prefix (checks s) (checks t) \<and> prefix (history s) (history t)
     \<and> prefix (map incident_keys (incidents s)) (map incident_keys (incidents t))"

lemma append_only_refl [simp]: "append_only s s"
  by (simp add: append_only_def)

lemma append_only_trans: "append_only s t \<Longrightarrow> append_only t u \<Longrightarrow> append_only s u"
  unfolding append_only_def by (meson prefix_order.trans)

lemma map_incident_keys_update [simp]:
  "map incident_keys (update_rows p (\<lambda>r. touch_incident now r (apply_incident_patch ip r)) rs)
   = map incident_keys rs"
  by (induction rs) (simp_all add: update_rows_def incident_keys_def)

lemma api_step_append_only:
  assumes "api_step s t"
  shows "append_only s t"
  using assms
  by (cases rule: api_step_cases) (auto simp: append_only_def write_Inr)

text \<open>The ongoing incidents of a target: the spec asks for at most one.\<close>

definition ongoing_incidents :: "db_state \<Rightarrow> row_id \<Rightarrow> incident list" where
  "ongoing_incidents s tid = filter (\<lambda>r. inc_targetId r = tid \<and> inc_status r = Ongoing) (incidents s)"

subsection \<open>Concrete stores for the witnesses\<close>

definition probe_fail :: new_check where
  "probe_fail = \<lparr>nc_targetId = 1, nc_statusCode = None, nc_responseTime = None, nc_isSuccess = 0,
                 nc_errorMessage = Some ''timeout''\<rparr>"

definition store_one_check :: db_state where
  "store_one_check = empty_db\<lparr>checks := [mk_check 1000 probe_fail 1], checks_ai := 2\<rparr>"

definition store_one_incident :: db_state where
  "store_one_incident = empty_db\<lparr>incidents :=
     [mk_incident 1000 \<lparr>ni_targetId = 1, ni_startTime = 1000, ni_reason = None, ni_status = Ongoing\<rparr> 1],
     incidents_ai := 2\<rparr>"

lemmas eval_simps = empty_db_def mk_incident_def int_col_ok_def int32_max_def int_opt_ok_def text_ok_def ts_ok_def
  ts_round_def varchar_ok_def

lemma checks_create_store_one_check:
  "checks_create (Some empty_db) 1000 probe_fail = Inr (\<lparr>affectedRows = 1, insertId = 1\<rparr>, store_one_check)"
  by (simp add: checks_create_def createCheck_Inr store_one_check_def check_row_error_def probe_fail_def
      mk_check_def eval_simps)

lemma reachable_store_one_check: "reachable store_one_check"
  using checks_create_store_one_check by (blast intro: reachable.intros api_step.intros)

lemma incidents_create_store_one_incident:
  "incidents_create (Some empty_db) 1000 1 1000 None = Inr (\<lparr>affectedRows = 1, insertId = 1\<rparr>, store_one_incident)"
  by (simp add: incidents_create_def createIncident_Inr store_one_incident_def incident_row_error_def
      eval_simps)

lemma reachable_store_one_incident: "reachable store_one_incident"
  using incidents_create_store_one_incident by (blast intro: reachable.intros api_step.intros)

subsection \<open>Properties of the store as a state machine\<close>

text \<open>C1: \<open>incidents.create\<close> adds an ongoing incident for the target whether or not
  the target already has one: whenever the row fits its columns and the counter is not
  exhausted, the call succeeds and the target has one more ongoing incident. Nothing
  enforces at most one ongoing incident per target.\<close>

theorem incidents_create_adds_ongoing:
  assumes "incidents_ai s \<le> int32_max" "int_col_ok tid" "ts_ok st" "text_ok reason"
  shows "\<exists>h t. incidents_create (Some s) now tid st reason = Inr (h, t)
                \<and> length (ongoing_incidents t tid) = Suc (length (ongoing_incidents s tid))"
  using assms
  by (simp add: incidents_create_def createIncident_Inr incident_row_error_def mk_incident_def
      ongoing_incidents_def)

theorem incidents_create_adds_ongoing_witness:
  "reachable store_one_incident \<and> length (ongoing_incidents store_one_incident 1) = 1
   \<and> (\<exists>h t. incidents_create (Some store_one_incident) 2000 1 2000 None = Inr (h, t)
            \<and> length (ongoing_incidents t 1) = 2)"
proof -
  have one: "length (ongoing_incidents store_one_incident 1) = 1"
    by (simp add: ongoing_incidents_def store_one_incident_def)
  have hyps: "incidents_ai store_one_incident \<le> int32_max" "int_col_ok 1" "ts_ok 2000" "text_ok None"
    by (simp_all add: store_one_incident_def eval_simps)
  from incidents_create_adds_ongoing [OF hyps, of 2000] one reachable_store_one_incident
  show ?thesis by (simp add: numeral_2_eq_2)
qed

text \<open>C2: recording a check (\<open>checks.create\<close>, the prober's entry point) leaves the
  incidents table as it was: a failing check opens no incident and a succeeding check
  resolves none.\<close>

theorem checks_create_keeps_incidents:
  "checks_create (Some s) now nc = Inr (h, t) \<Longrightarrow>
   incidents t = incidents s \<and> incidents_ai t = incidents_ai s"
  by (simp add: checks_create_def createCheck_Inr)

theorem checks_create_keeps_incidents_witness:
  "nc_isSuccess probe_fail = 0 \<and> incidents store_one_check = incidents empty_db
   \<and> incidents_ai store_one_check = incidents_ai empty_db"
  using checks_create_keeps_incidents [OF checks_create_store_one_check] by (simp add: probe_fail_def)

text \<open>C3: in every reachable store an incident is \<open>ongoing\<close> exactly when it has no
  \<open>endTime\<close>.\<close>

theorem reachable_incidents_consistent: "reachable s \<Longrightarrow> incidents_consistent s"
proof (induction rule: reachable.induct)
  case init
  show ?case by (simp add: incidents_consistent_def empty_db_def)
next
  case (step s t)
  from step.hyps(2) step.IH show ?case by (rule api_step_incidents_consistent)
qed

theorem reachable_incidents_consistent_witness:
  "reachable store_one_incident \<and> incidents_consistent store_one_incident"
  using reachable_store_one_incident reachable_incidents_consistent [OF reachable_store_one_incident]
  by simp

text \<open>C4: along any sequence of successful calls, the checks and the uptime rows only
  grow at the end, and no incident disappears or changes its id, target or start time.\<close>

theorem steps_append_only: "api_step\<^sup>*\<^sup>* s t \<Longrightarrow> append_only s t"
proof (induction rule: rtranclp_induct)
  case base
  show ?case by simp
next
  case (step t u)
  then show ?case by (blast intro: append_only_trans api_step_append_only)
qed

theorem steps_append_only_witness:
  "api_step\<^sup>*\<^sup>* empty_db store_one_check \<and> append_only empty_db store_one_check"
proof -
  have "api_step empty_db store_one_check"
    using checks_create_store_one_check by (rule api_step.checks_create)
  then have r: "api_step\<^sup>*\<^sup>* empty_db store_one_check" by simp
  with steps_append_only [OF r] show ?thesis by simp
qed

end
