(* ===== verification/Invariants.thy ===== *)
theory Invariants
  imports Api
begin

text \<open>
  A progress property of the server as a state machine (theory \<open>Api\<close>): from any store, a sequence of
  \<open>incidents.resolve\<close> calls (one per incident id) reaches a store with no ongoing
  incident, as long as the clock fits a \<open>TIMESTAMP\<close> column.
\<close>

subsection \<open>Resolving every incident\<close>

lemma map_key_update_rows:
  "(\<And>r. key (f r) = key r) \<Longrightarrow> map key (update_rows p f rs) = map key rs"
  by (simp add: update_rows_def)

text \<open>One \<open>incidents.resolve\<close> call with a clock that fits a \<open>TIMESTAMP\<close> column is
  always a step.\<close>

lemma resolve_step:
  "ts_ok now \<Longrightarrow>
   api_step s (s\<lparr>incidents := update_rows (\<lambda>r. inc_id r = i)
     (\<lambda>r. touch_incident now r (apply_incident_patch \<lparr>ip_status = Some Resolved, ip_endTime = Some now\<rparr> r))
     (incidents s)\<rparr>)"
  by (rule api_step.incidents_resolve [where now = now and i = i
        and h = "\<lparr>affectedRows = matched (\<lambda>r. inc_id r = i) (incidents s), insertId = 0\<rparr>"])
     (simp add: incidents_resolve_def updateIncident_Inr incident_patch_ok_def)

lemma resolve_ids_run:
  assumes "ts_ok now"
  shows "\<exists>t. api_step\<^sup>*\<^sup>* s t \<and> map inc_id (incidents t) = map inc_id (incidents s)
             \<and> (\<forall>r \<in> set (incidents t). inc_id r \<in> set is \<longrightarrow> inc_status r = Resolved)"
proof (induction "is" rule: rev_induct)
  case Nil
  show ?case by auto
next
  case (snoc i "is")
  then obtain t where run: "api_step\<^sup>*\<^sup>* s t" and ids: "map inc_id (incidents t) = map inc_id (incidents s)"
    and res: "\<forall>r \<in> set (incidents t). inc_id r \<in> set is \<longrightarrow> inc_status r = Resolved"
    by blast
  let ?g = "\<lambda>r. touch_incident now r (apply_incident_patch \<lparr>ip_status = Some Resolved, ip_endTime = Some now\<rparr> r)"
  let ?t = "t\<lparr>incidents := update_rows (\<lambda>r. inc_id r = i) ?g (incidents t)\<rparr>"
  have "api_step\<^sup>*\<^sup>* s ?t" using run resolve_step [OF assms] by (rule rtranclp.rtrancl_into_rtrancl)
  moreover have "map inc_id (incidents ?t) = map inc_id (incidents s)"
    using ids by (simp add: map_key_update_rows)
  moreover have "\<forall>r \<in> set (incidents ?t). inc_id r \<in> set (is @ [i]) \<longrightarrow> inc_status r = Resolved"
    using res by (auto simp: set_update_rows apply_incident_patch_def)
  ultimately show ?case by blast
qed

subsection \<open>Properties\<close>

text \<open>C30. From any store, calls of \<open>incidents.resolve\<close> with a clock inside the
  \<open>TIMESTAMP\<close> range reach a store in which no incident is ongoing; no incident is
  removed or renumbered on the way. (The dashboard cannot issue these calls: its
  Resolve button has an empty handler.)\<close>

theorem all_incidents_resolvable:
  "ts_ok now \<Longrightarrow>
   \<exists>t. api_step\<^sup>*\<^sup>* s t \<and> filter (\<lambda>r. inc_status r = Ongoing) (incidents t) = []
        \<and> map inc_id (incidents t) = map inc_id (incidents s)"
proof -
  assume ok: "ts_ok now"
  from resolve_ids_run [OF ok, of s "map inc_id (incidents s)"] obtain t where
    run: "api_step\<^sup>*\<^sup>* s t" and ids: "map inc_id (incidents t) = map inc_id (incidents s)"
    and res: "\<forall>r \<in> set (incidents t). inc_id r \<in> set (map inc_id (incidents s)) \<longrightarrow> inc_status r = Resolved"
    by blast
  have "inc_id r \<in> set (map inc_id (incidents s))" if "r \<in> set (incidents t)" for r
    using that ids by (metis image_eqI list.set_map)
  with res have "filter (\<lambda>r. inc_status r = Ongoing) (incidents t) = []"
    by (auto simp: filter_empty_conv)
  with run ids show ?thesis by blast
qed

theorem all_incidents_resolvable_witness:
  "ts_ok 2000000 \<and>
   (\<exists>t. api_step\<^sup>*\<^sup>* store_one_incident t \<and> filter (\<lambda>r. inc_status r = Ongoing) (incidents t) = []
        \<and> map inc_id (incidents t) = [1])"
proof -
  have ok: "ts_ok 2000000" by (simp add: ts_ok_def ts_round_def int32_max_def)
  have ids: "map inc_id (incidents store_one_incident) = [1]" by (simp add: store_one_incident_def)
  from all_incidents_resolvable [OF ok, of store_one_incident] ok ids show ?thesis by simp
qed

end
