(* ===== verification/Layout.thy ===== *)
theory Layout
  imports Js
begin

text \<open>
  The client shell: the routes of \<open>src/client/src/App.tsx\<close> and the sidebar of
  \<open>src/client/src/components/DashboardLayout.tsx\<close>. Routing follows wouter: a
  \<open>Switch\<close> renders the first \<open>Route\<close> whose pattern matches the location, and a
  static pattern matches the location exactly, up to a trailing slash and ASCII case.
  The sidebar keeps its width in React state and in \<open>localStorage\<close>; a drag sets it
  from the width at mouse-down plus the pointer's travel, clamped to [200, 480].
\<close>

subsection \<open>Routes\<close>

datatype page = Not_found | Home | Targets | Incidents | Settings

definition ascii_lower :: "char \<Rightarrow> char" where
  "ascii_lower c = (let n = (of_char c :: nat) in if 65 \<le> n \<and> n \<le> 90 then char_of (n + 32) else c)"

definition path_matches :: "string \<Rightarrow> string \<Rightarrow> bool" where
  "path_matches pat loc \<longleftrightarrow>
     (let l = map ascii_lower loc in
      if pat = ''/'' then l = [] \<or> l = ''/'' else l = pat \<or> l = pat @ ''/'')"

text \<open>\<open>DashboardWrapper\<close> (App.tsx lines 22--34): the pages inside the layout.\<close>

definition dashboard_route :: "string \<Rightarrow> page" where
  "dashboard_route loc =
     (if path_matches ''/'' loc then Home
      else if path_matches ''/targets'' loc then Targets
      else if path_matches ''/incidents'' loc then Incidents
      else if path_matches ''/settings'' loc then Settings
      else Not_found)"

text \<open>\<open>Router\<close> (lines 13--20): \<open>/404\<close> renders \<open>NotFound\<close> alone; every other
  location (\<open>/:rest*\<close>) renders the layout around \<open>dashboard_route\<close>. The result
  says whether the layout is shown and which page it holds.\<close>

definition app_route :: "string \<Rightarrow> bool \<times> page" where
  "app_route loc = (if path_matches ''/404'' loc then (False, Not_found) else (True, dashboard_route loc))"

subsection \<open>The sidebar menu\<close>

text \<open>\<open>menuItems\<close> (lines 18--23) and the active flag \<open>location === item.path\<close>
  of each menu button (lines 85--99).\<close>

definition menuItems :: "(string \<times> string) list" where
  "menuItems = [(''Dashboard'', ''/''), (''Targets'', ''/targets''), (''Incidents'', ''/incidents''),
                (''Settings'', ''/settings'')]"

definition active_items :: "string \<Rightarrow> string list" where
  "active_items loc = map fst (filter (\<lambda>(label, path). loc = path) menuItems)"

subsection \<open>The sidebar width\<close>

record layout_state =
  sidebarWidth :: jsnum
  stored_width :: "string option" \<comment> \<open>\<open>localStorage["sidebar-width"]\<close>\<close>

definition DEFAULT_WIDTH :: int where "DEFAULT_WIDTH = 280"
definition MIN_WIDTH :: int where "MIN_WIDTH = 200"
definition MAX_WIDTH :: int where "MAX_WIDTH = 480"

definition js_num_to_string :: "jsnum \<Rightarrow> string" where
  "js_num_to_string v = (case v of Num i \<Rightarrow> js_int_to_string i | NaN \<Rightarrow> ''NaN'')"

text \<open>The initial state (lines 35--38): \<open>saved ? parseInt(saved, 10) : DEFAULT_WIDTH\<close>;
  an empty string is falsy. Nothing clamps the saved value.\<close>

definition initial_width :: "string option \<Rightarrow> jsnum" where
  "initial_width saved =
     (case saved of None \<Rightarrow> Num DEFAULT_WIDTH | Some s \<Rightarrow> if s = [] then Num DEFAULT_WIDTH else parseInt10 s)"

definition mount_layout :: "string option \<Rightarrow> layout_state" where
  "mount_layout saved = \<lparr>sidebarWidth = initial_width saved, stored_width = saved\<rparr>"

text \<open>\<open>handleMouseMove\<close> (lines 47--52) with the \<open>startX\<close> and \<open>startWidth\<close> captured
  at mouse-down: clamp, set the state, store the decimal string.\<close>

definition handleMouseMove :: "int \<Rightarrow> jsnum \<Rightarrow> int \<Rightarrow> layout_state \<Rightarrow> layout_state" where
  "handleMouseMove startX startWidth clientX st =
     (let delta = clientX - startX;
          newWidth = js_max (Num MIN_WIDTH) (js_min (Num MAX_WIDTH) (js_add startWidth (Num delta)))
      in st\<lparr>sidebarWidth := newWidth, stored_width := Some (js_num_to_string newWidth)\<rparr>)"

text \<open>A drag (\<open>handleMouseDown\<close>, lines 42--61): mouse-down at \<open>startX\<close> captures the
  current width, then each \<open>mousemove\<close> until \<open>mouseup\<close> applies
  \<open>handleMouseMove\<close> with the pointer's position.\<close>

definition handleMouseDown :: "int \<Rightarrow> int list \<Rightarrow> layout_state \<Rightarrow> layout_state" where
  "handleMouseDown startX moves st =
     fold (handleMouseMove startX (sidebarWidth st)) moves st"

subsection \<open>Lemmas\<close>

lemma map_ascii_lower_slash_word:
  "map ascii_lower (''/targets/'' @ rest) = ''/targets/'' @ map ascii_lower rest"
  by (simp add: ascii_lower_def)

text \<open>A link \<open>/targets/<id>\<close> matches none of the dashboard's routes.\<close>

lemma app_route_target_link:
  "xs \<noteq> [] \<Longrightarrow> app_route (''/targets/'' @ xs) = (True, Not_found)"
  by (simp add: app_route_def dashboard_route_def path_matches_def map_ascii_lower_slash_word)

lemma handleMouseMove_overwrite:
  "handleMouseMove x w c (handleMouseMove x w d st) = handleMouseMove x w c st"
  by (simp add: handleMouseMove_def Let_def)

lemma fold_handleMouseMove:
  "moves \<noteq> [] \<Longrightarrow> fold (handleMouseMove x w) moves st = handleMouseMove x w (last moves) st"
proof (induction moves arbitrary: st)
  case (Cons c cs)
  then show ?case by (cases cs) (simp_all add: handleMouseMove_overwrite)
qed simp

lemma handleMouseDown_last:
  "moves \<noteq> [] \<Longrightarrow> handleMouseDown x moves st = handleMouseMove x (sidebarWidth st) (last moves) st"
  by (simp add: handleMouseDown_def fold_handleMouseMove)

lemma initial_width_to_string [simp]: "initial_width (Some (js_num_to_string v)) = v"
proof (cases v)
  case (Num i)
  then show ?thesis by (simp add: initial_width_def js_num_to_string_def parseInt10_js_int_to_string)
next
  case NaN
  then show ?thesis
    by (simp add: initial_width_def js_num_to_string_def parseInt10_def parse_digits_def
        is_js_space_def is_dec_digit_def)
qed

subsection \<open>Properties of the sidebar\<close>

text \<open>C20. A drag from a numeric width \<open>w\<close> leaves the sidebar at \<open>w\<close> plus the
  pointer's travel from mouse-down to the last \<open>mousemove\<close>, clamped to
  [\<open>MIN_WIDTH\<close>, \<open>MAX_WIDTH\<close>], and stores that width's decimal string; only the last
  move counts, since every move starts again from the width at mouse-down.\<close>

theorem handleMouseDown_width_bounds:
  assumes "sidebarWidth st = Num w" "moves \<noteq> []"
  shows "sidebarWidth (handleMouseDown startX moves st)
           = Num (max MIN_WIDTH (min MAX_WIDTH (w + (last moves - startX))))
         \<and> MIN_WIDTH \<le> max MIN_WIDTH (min MAX_WIDTH (w + (last moves - startX)))
         \<and> max MIN_WIDTH (min MAX_WIDTH (w + (last moves - startX))) \<le> MAX_WIDTH
         \<and> stored_width (handleMouseDown startX moves st)
           = Some (js_int_to_string (max MIN_WIDTH (min MAX_WIDTH (w + (last moves - startX)))))"
  using assms by (simp add: handleMouseDown_last handleMouseMove_def Let_def js_num_to_string_def
      MIN_WIDTH_def MAX_WIDTH_def)

lemma handleMouseDown_width_bounds_witness:
  "sidebarWidth (handleMouseDown 100 [150, 160] (mount_layout None)) = Num 340
   \<and> stored_width (handleMouseDown 100 [150, 160] (mount_layout None)) = Some (js_int_to_string 340)"
proof -
  have h: "sidebarWidth (mount_layout None) = Num 280" "[150, 160::int] \<noteq> []"
    by (simp_all add: mount_layout_def initial_width_def DEFAULT_WIDTH_def)
  from handleMouseDown_width_bounds [OF h, of 100] show ?thesis by (simp add: MIN_WIDTH_def MAX_WIDTH_def)
qed

text \<open>C21. After a drag, reloading the page (mounting the layout with what the drag
  stored) restores the width the drag left, whatever it was.\<close>

theorem sidebar_width_reload:
  "moves \<noteq> [] \<Longrightarrow>
     sidebarWidth (mount_layout (stored_width (handleMouseDown startX moves st)))
       = sidebarWidth (handleMouseDown startX moves st)"
  by (simp add: handleMouseDown_last handleMouseMove_def Let_def mount_layout_def)

lemma sidebar_width_reload_witness:
  "[40::int] \<noteq> [] \<and>
   sidebarWidth (mount_layout (stored_width (handleMouseDown 100 [40] (mount_layout None))))
     = sidebarWidth (handleMouseDown 100 [40] (mount_layout None))"
proof (rule conjI)
  show "[40::int] \<noteq> []" by simp
  show "sidebarWidth (mount_layout (stored_width (handleMouseDown 100 [40] (mount_layout None))))
          = sidebarWidth (handleMouseDown 100 [40] (mount_layout None))"
    by (rule sidebar_width_reload) simp
qed

text \<open>C22. A stored width that does not parse as an integer (a non-empty string
  whose \<open>parseInt(s, 10)\<close> is NaN, such as \<open>wide\<close>) makes the width NaN, and no drag
  repairs it: \<open>Math.min\<close> and \<open>Math.max\<close> keep NaN, so the sidebar stays at
  \<open>NaNpx\<close> until the storage is cleared by hand.\<close>

theorem sidebar_nan_sticky:
  assumes "saved \<noteq> []" "parseInt10 saved = NaN"
  shows "sidebarWidth (mount_layout (Some saved)) = NaN
         \<and> sidebarWidth (handleMouseDown startX moves (mount_layout (Some saved))) = NaN"
proof -
  have nan: "initial_width (Some saved) = NaN"
    using assms by (simp add: initial_width_def)
  have "fold (handleMouseMove startX NaN) moves st = st
        \<or> sidebarWidth (fold (handleMouseMove startX NaN) moves st) = NaN" for st
    by (cases "moves = []") (simp_all add: fold_handleMouseMove handleMouseMove_def Let_def)
  from this [of "mount_layout (Some saved)"] nan show ?thesis
    by (auto simp: handleMouseDown_def mount_layout_def)
qed

lemma sidebar_nan_sticky_witness:
  "sidebarWidth (mount_layout (Some ''wide'')) = NaN
   \<and> sidebarWidth (handleMouseDown 0 [300] (mount_layout (Some ''wide''))) = NaN"
proof -
  have h: "''wide'' \<noteq> []" "parseInt10 ''wide'' = NaN"
    by (simp_all add: parseInt10_def parse_digits_def is_js_space_def is_dec_digit_def)
  from sidebar_nan_sticky [OF h] show ?thesis by simp
qed

end
