(* ===== verification/Pages.thy ===== *)
theory Pages
  imports Router Layout
begin

text \<open>
  The dashboard pages under \<open>src/client/src/pages/\<close>: what \<open>Home.tsx\<close>,
  \<open>Targets.tsx\<close> and \<open>Incidents.tsx\<close> render from the answers of their tRPC
  queries, and what the buttons and the form of the Targets page send to the router.
  A query is \<open>Loading\<close>, \<open>Errored\<close> (React Query then has \<open>isLoading\<close> false
  and \<open>data\<close> undefined) or \<open>Loaded\<close> with the procedure's answer. A view keeps
  the texts, links and flags the page shows; markup and styling are left out.
\<close>

datatype 'a query = Loading | Errored | Loaded 'a

definition online_badge :: "bool \<Rightarrow> string" where
  "online_badge b = (if b then ''Online'' else ''Offline'')"

subsection \<open>Home\<close>

text \<open>One card of the service list (Home.tsx lines 84--127).\<close>

record service_card =
  card_href :: string
  card_online :: bool
  card_title :: string
  card_status_line :: string
  card_response :: "string rendered"
  card_badge :: string
  card_last_checked :: timestamp

definition status_line :: "target_status \<Rightarrow> string" where
  "status_line s =
     (if truthy_num (st_statusCode s) then ''Status: '' @ js_int_to_string (the (st_statusCode s))
      else ''No recent checks'')"

definition status_card :: "target_status \<Rightarrow> service_card" where
  "status_card s =
     \<lparr>card_href = ''/targets/'' @ js_int_to_string (st_targetId s),
      card_online = isOnline s,
      card_title = ''Service '' @ js_int_to_string (st_targetId s),
      card_status_line = status_line s,
      card_response = render_and (st_responseTime s) (\<lambda>n. js_int_to_string n @ ''ms''),
      card_badge = online_badge (isOnline s),
      card_last_checked = lastCheckTime s\<rparr>"

datatype home_list = Service_list "service_card list" | No_services

text \<open>The page (Home.tsx lines 8--140): a skeleton while loading, then the three
  counters Total, Online and Offline and the list. \<open>statuses?.length || 0\<close> is 0
  when the query failed.\<close>

datatype home_view = Home_skeleton | Home_dashboard nat nat nat home_list

definition Home_view :: "target_status list query \<Rightarrow> home_view" where
  "Home_view q =
     (case q of
        Loading \<Rightarrow> Home_skeleton
      | Errored \<Rightarrow> Home_dashboard 0 0 0 No_services
      | Loaded sts \<Rightarrow>
          (let onlineCount = length (filter isOnline sts)
           in Home_dashboard (length sts) onlineCount (length sts - onlineCount)
                (if sts \<noteq> [] then Service_list (map status_card sts) else No_services)))"

definition home_page :: "db_state option \<Rightarrow> home_view" where
  "home_page db = Home_view (Loaded (stats_getAllStatus db))"

subsection \<open>Targets\<close>

text \<open>The form of the "Add Target" dialog (Targets.tsx lines 30--38): the number
  inputs store \<open>parseInt(e.target.value)\<close>, so a cleared field holds NaN.\<close>

record form_data =
  fd_name :: string
  fd_url :: string
  fd_description :: string
  fd_checkInterval :: jsnum
  fd_timeout :: jsnum
  fd_expectedStatusCode :: jsnum

definition initial_form :: form_data where
  "initial_form =
     \<lparr>fd_name = [], fd_url = [], fd_description = [], fd_checkInterval = Num 300, fd_timeout = Num 10,
      fd_expectedStatusCode = Num 200\<rparr>"

record targets_page_state =
  isOpen :: bool
  formData :: form_data

definition targets_page_init :: targets_page_state where
  "targets_page_init = \<lparr>isOpen = False, formData = initial_form\<rparr>"

datatype form_edit =
  Edit_name string | Edit_url string | Edit_description string
  | Edit_checkInterval string | Edit_timeout string | Edit_expectedStatusCode string

text \<open>The \<open>onChange\<close> handlers of the inputs (lines 110--189).\<close>

fun onChange :: "form_edit \<Rightarrow> form_data \<Rightarrow> form_data" where
  "onChange (Edit_name v) fd = fd\<lparr>fd_name := v\<rparr>"
| "onChange (Edit_url v) fd = fd\<lparr>fd_url := v\<rparr>"
| "onChange (Edit_description v) fd = fd\<lparr>fd_description := v\<rparr>"
| "onChange (Edit_checkInterval v) fd = fd\<lparr>fd_checkInterval := parseInt10 v\<rparr>"
| "onChange (Edit_timeout v) fd = fd\<lparr>fd_timeout := parseInt10 v\<rparr>"
| "onChange (Edit_expectedStatusCode v) fd = fd\<lparr>fd_expectedStatusCode := parseInt10 v\<rparr>"

text \<open>\<open>mutateAsync(formData)\<close> sends every field; NaN travels as JSON \<open>null\<close>,
  which \<open>z.number()\<close> refuses. zod reports every failing field in one error; the
  model keeps the first one.\<close>

definition zod_number :: "string \<Rightarrow> jsnum \<Rightarrow> api_error + int" where
  "zod_number field v = (case v of Num i \<Rightarrow> Inr i | NaN \<Rightarrow> Inl (Bad_request field))"

definition form_request :: "form_data \<Rightarrow> api_error + create_target_input" where
  "form_request fd =
     (case zod_number ''checkInterval'' (fd_checkInterval fd) of Inl e \<Rightarrow> Inl e | Inr ci \<Rightarrow>
      case zod_number ''timeout'' (fd_timeout fd) of Inl e \<Rightarrow> Inl e | Inr tmo \<Rightarrow>
      case zod_number ''expectedStatusCode'' (fd_expectedStatusCode fd) of Inl e \<Rightarrow> Inl e | Inr sc \<Rightarrow>
        Inr \<lparr>cti_name = fd_name fd, cti_url = fd_url fd, cti_description = Some (fd_description fd),
             cti_method = None, cti_checkInterval = Some ci, cti_timeout = Some tmo,
             cti_expectedStatusCode = Some sc\<rparr>)"

text \<open>\<open>handleSubmit\<close> (lines 40--56): on success the form is reset and the dialog
  closed (the list refetches the new store); on failure the error is logged and the
  page keeps its state.\<close>

definition handleSubmit ::
  "(string \<Rightarrow> bool) \<Rightarrow> db_state option \<Rightarrow> timestamp \<Rightarrow> targets_page_state \<Rightarrow> targets_page_state \<times> db_state option" where
  "handleSubmit url_ok db now st =
     (case form_request (formData st) of
        Inl e \<Rightarrow> (st, db)
      | Inr inp \<Rightarrow>
          (case targets_create url_ok db now inp of
             Inl e \<Rightarrow> (st, db)
           | Inr (h, s') \<Rightarrow> (st\<lparr>isOpen := False, formData := initial_form\<rparr>, Some s')))"

text \<open>\<open>setIsOpen\<close>: the dialog's \<open>onOpenChange\<close> (line 95) and the "Create First
  Target" button (line 268).\<close>

definition setIsOpen :: "bool \<Rightarrow> targets_page_state \<Rightarrow> targets_page_state" where
  "setIsOpen b st = st\<lparr>isOpen := b\<rparr>"

text \<open>The delete button of a card (lines 246--255): \<open>targets.delete\<close>.\<close>

definition delete_click :: "db_state option \<Rightarrow> row_id \<Rightarrow> db_state option" where
  "delete_click db tid = (case targets_delete db tid of Inl e \<Rightarrow> db | Inr (h, s') \<Rightarrow> Some s')"

text \<open>\<open>getStatusForTarget\<close> (lines 58--60) and one card of the list (lines 200--261).\<close>

definition getStatusForTarget :: "target_status list option \<Rightarrow> row_id \<Rightarrow> target_status option" where
  "getStatusForTarget statuses tid =
     (case statuses of None \<Rightarrow> None | Some sts \<Rightarrow> find (\<lambda>s. st_targetId s = tid) sts)"

record target_card =
  tc_href :: string
  tc_name :: string
  tc_badge :: string
  tc_url :: string
  tc_description :: "string option"
  tc_interval :: string
  tc_timeout :: string
  tc_response :: "string rendered"

definition target_card :: "target_status list option \<Rightarrow> monitoring_target \<Rightarrow> target_card" where
  "target_card statuses t =
     (let status = getStatusForTarget statuses (tgt_id t) in
      \<lparr>tc_href = ''/targets/'' @ js_int_to_string (tgt_id t),
       tc_name = tgt_name t,
       tc_badge = online_badge (case status of None \<Rightarrow> False | Some s \<Rightarrow> isOnline s),
       tc_url = tgt_url t,
       tc_description = (if truthy_str (tgt_description t) then tgt_description t else None),
       tc_interval = ''Interval: '' @ js_int_to_string (tgt_checkInterval t) @ ''s'',
       tc_timeout = ''Timeout: '' @ js_int_to_string (tgt_timeout t) @ ''s'',
       tc_response = (case status of None \<Rightarrow> Nothing
                      | Some s \<Rightarrow> render_and (st_responseTime s) (\<lambda>n. ''Response: '' @ js_int_to_string n @ ''ms''))\<rparr>)"

datatype targets_view = Targets_skeleton | Target_list "target_card list" | No_targets

definition Targets_view :: "monitoring_target list query \<Rightarrow> target_status list query \<Rightarrow> targets_view" where
  "Targets_view q sq =
     (let statuses = (case sq of Loaded sts \<Rightarrow> Some sts | _ \<Rightarrow> None) in
      case q of
        Loading \<Rightarrow> Targets_skeleton
      | Errored \<Rightarrow> No_targets
      | Loaded ts \<Rightarrow> if ts \<noteq> [] then Target_list (map (target_card statuses) ts) else No_targets)"

definition targets_page :: "db_state option \<Rightarrow> targets_view" where
  "targets_page db = Targets_view (Loaded (targets_list db)) (Loaded (stats_getAllStatus db))"

subsection \<open>Incidents\<close>

text \<open>One incident of a target's card (Incidents.tsx lines 103--142). The Resolve
  button is shown for an ongoing incident; its \<open>onClick\<close> is empty.\<close>

record incident_entry =
  ie_badge :: string
  ie_startTime :: timestamp
  ie_reason :: "string option"
  ie_resolved :: "timestamp option"
  ie_resolve_button :: bool

definition incident_entry :: "incident \<Rightarrow> incident_entry" where
  "incident_entry i =
     \<lparr>ie_badge = (if inc_status i = Ongoing then ''Ongoing'' else ''Resolved''),
      ie_startTime = inc_startTime i,
      ie_reason = (if truthy_str (inc_reason i) then inc_reason i else None),
      ie_resolved = inc_endTime i,
      ie_resolve_button = (inc_status i = Ongoing)\<rparr>"

datatype target_incidents = Incidents_skeleton | No_incidents string | Incident_list string nat "incident_entry list"

text \<open>\<open>TargetIncidents\<close> (lines 59--148): the query asks for \<open>limit: 10\<close>; the
  description reads "n incident(s) recorded".\<close>

definition TargetIncidents :: "string \<Rightarrow> incident list query \<Rightarrow> target_incidents" where
  "TargetIncidents targetName q =
     (case q of
        Loading \<Rightarrow> Incidents_skeleton
      | Errored \<Rightarrow> No_incidents targetName
      | Loaded incs \<Rightarrow> if incs = [] then No_incidents targetName
                      else Incident_list targetName (length incs) (map incident_entry incs))"

datatype incidents_view = Incidents_page_skeleton | Incidents_by_target "target_incidents list" | No_targets_configured

text \<open>\<open>Incidents\<close> (lines 8--57): one \<open>TargetIncidents\<close> per listed target.\<close>

definition Incidents_view ::
  "monitoring_target list query \<Rightarrow> (row_id \<Rightarrow> incident list query) \<Rightarrow> incidents_view" where
  "Incidents_view q incs_of =
     (case q of
        Loading \<Rightarrow> Incidents_page_skeleton
      | Errored \<Rightarrow> No_targets_configured
      | Loaded ts \<Rightarrow> if ts \<noteq> [] then Incidents_by_target (map (\<lambda>t. TargetIncidents (tgt_name t) (incs_of (tgt_id t))) ts)
                    else No_targets_configured)"

definition incidents_page :: "db_state option \<Rightarrow> incidents_view" where
  "incidents_page db =
     Incidents_view (Loaded (targets_list db)) (\<lambda>tid. Loaded (incidents_getByTargetId db tid (Some 10)))"

subsection \<open>Properties of the pages\<close>

text \<open>A prober's report of a timed-out request to target 1: no status code, no
  response time.\<close>

definition timeout_probe :: new_check where
  "timeout_probe = \<lparr>nc_targetId = 1, nc_statusCode = None, nc_responseTime = None, nc_isSuccess = 0,
     nc_errorMessage = Some ''timeout''\<rparr>"

lemma home_two_targets:

  "home_page (Some two_targets_store)
   = Home_dashboard 1 1 0 (Service_list [status_card (status_of 1 (check_row 3 1 (Some 95) 1120000))])"
  by (simp add: home_page_def Home_view_def query_simps router_eval status_of_def)

lemma two_targets_wf: "db_wf two_targets_store"
  by (simp add: db_wf_def ids_wf_def router_eval)

text \<open>C23. The Home counters: "Total Services" counts the active targets that have
  at least one check (an active target never checked is not counted, nor listed),
  "Online" counts the active targets whose latest check succeeded, and "Offline" the
  rest of the total.\<close>

theorem home_page_counts:
  assumes "home_page (Some s) = Home_dashboard n_total n_online n_offline l"
  shows "n_total = length (filter (\<lambda>t. \<exists>c \<in> set (checks s). chk_targetId c = tgt_id t) (getAllTargets (Some s)))
         \<and> n_online = length (filter (\<lambda>t. case getTargetStatus (Some s) (tgt_id t) of
                                           None \<Rightarrow> False | Some st \<Rightarrow> isOnline st) (getAllTargets (Some s)))
         \<and> n_online + n_offline = n_total"
proof -
  let ?sts = "stats_getAllStatus (Some s)"
  have v: "n_total = length ?sts" "n_online = length (filter isOnline ?sts)" "n_offline = length ?sts - n_online"
    using assms by (auto simp: home_page_def Home_view_def Let_def)
  have "length ?sts = length (filter (\<lambda>t. getTargetStatus (Some s) (tgt_id t) \<noteq> None) (getAllTargets (Some s)))"
    by (simp add: stats_getAllStatus_def filter_map comp_def)
  also have "\<dots> = length (filter (\<lambda>t. \<exists>c \<in> set (checks s). chk_targetId c = tgt_id t) (getAllTargets (Some s)))"
    by (simp add: getTargetStatus_None_conv filter_empty_conv)
  moreover have "length (filter isOnline ?sts) = length (filter (\<lambda>t. case getTargetStatus (Some s) (tgt_id t) of
                                           None \<Rightarrow> False | Some st \<Rightarrow> isOnline st) (getAllTargets (Some s)))"
    unfolding stats_getAllStatus_def by (rule length_filter_map_the)
  ultimately show ?thesis using v length_filter_le [of isOnline ?sts] by simp
qed

theorem home_page_counts_witness:
  "1 = length (filter (\<lambda>t. \<exists>c \<in> set (checks two_targets_store). chk_targetId c = tgt_id t)
                 (getAllTargets (Some two_targets_store)))
   \<and> 1 = length (filter (\<lambda>t. case getTargetStatus (Some two_targets_store) (tgt_id t) of
                                None \<Rightarrow> False | Some st \<Rightarrow> isOnline st) (getAllTargets (Some two_targets_store)))
   \<and> (1::nat) + 0 = 1"
  by (rule home_page_counts [OF home_two_targets])

text \<open>C24. When a prober records a timed-out request (no status code) in a later
  second than every earlier check of its target, the Home card of that target reads
  "No recent checks" while its "Last checked" line shows that very check
  (\<open>checkedAt\<close> is MySQL's \<open>NOW()\<close>, the call's second).\<close>

theorem timeout_shows_no_recent_checks:
  assumes "checks_create (Some s) now nc = Inr (h, s')" "nc_statusCode nc = None"
    and "\<forall>d \<in> set (checks s). chk_targetId d = nc_targetId nc \<longrightarrow> chk_checkedAt d < sql_now now"
  shows "\<exists>card. map_option status_card (getTargetStatus (Some s') (nc_targetId nc)) = Some card
           \<and> card_status_line card = ''No recent checks'' \<and> card_last_checked card = sql_now now
           \<and> card_online card = (nc_isSuccess nc = 1)"
proof -
  let ?c = "mk_check now nc (checks_ai s)"
  have s': "checks s' = checks s @ [?c]"
    using assms(1) by (simp add: checks_create_def createCheck_Inr)
  have "getTargetStatus (Some s') (chk_targetId ?c) = Some (status_of (chk_targetId ?c) ?c)"
    by (rule getTargetStatus_newest [OF s']) (use assms(3) in \<open>simp add: mk_check_def\<close>)
  then show ?thesis
    using assms(2) by (simp add: mk_check_def status_card_def status_of_def status_line_def truthy_num_def)
qed

theorem timeout_shows_no_recent_checks_witness:
  "\<exists>card. map_option status_card (getTargetStatus (Some (two_targets_store\<lparr>checks := checks two_targets_store
              @ [mk_check 1180000 timeout_probe 4], checks_ai := 5\<rparr>)) (nc_targetId timeout_probe)) = Some card
     \<and> card_status_line card = ''No recent checks'' \<and> card_last_checked card = sql_now 1180000
     \<and> card_online card = (nc_isSuccess timeout_probe = 1)"
proof (rule timeout_shows_no_recent_checks)
  show "checks_create (Some two_targets_store) 1180000 timeout_probe
        = Inr (\<lparr>affectedRows = 1, insertId = 4\<rparr>, two_targets_store\<lparr>checks := checks two_targets_store
              @ [mk_check 1180000 timeout_probe 4], checks_ai := 5\<rparr>)"
    by (simp add: checks_create_def createCheck_Inr check_row_error_def timeout_probe_def mk_check_def
        router_eval column_simps)
  show "nc_statusCode timeout_probe = None" by (simp add: timeout_probe_def)
  show "\<forall>d \<in> set (checks two_targets_store). chk_targetId d = nc_targetId timeout_probe
          \<longrightarrow> chk_checkedAt d < sql_now 1180000"
    by (simp add: timeout_probe_def router_eval sql_now_def)
qed


text \<open>C25. On the Targets page the status a card looks up in the \<open>getAllStatus\<close>
  list is the target's own latest status, so its badge is "Online" exactly when the
  latest check succeeded; a target with no check at all shows "Offline".\<close>

theorem targets_page_status_lookup:
  assumes "db_wf s" "t \<in> set (targets_list (Some s))"
  shows "getStatusForTarget (Some (stats_getAllStatus (Some s))) (tgt_id t) = getTargetStatus (Some s) (tgt_id t)
         \<and> tc_badge (target_card (Some (stats_getAllStatus (Some s))) t)
             = online_badge (case getTargetStatus (Some s) (tgt_id t) of None \<Rightarrow> False | Some st \<Rightarrow> isOnline st)"
proof -
  have d: "distinct (map tgt_id (getAllTargets (Some s)))"
    using assms(1) by (simp add: getAllTargets_def db_wf_def ids_wf_def distinct_map_filter)
  have "find (\<lambda>st. st_targetId st = tgt_id t) (stats_getAllStatus (Some s)) = getTargetStatus (Some s) (tgt_id t)"
    unfolding stats_getAllStatus_def
    by (rule find_map_the_filter [OF d]) (use assms(2) getTargetStatus_targetId in \<open>simp_all add: targets_list_def\<close>)
  then show ?thesis
    by (simp add: getStatusForTarget_def target_card_def Let_def)
qed

theorem targets_page_status_lookup_witness:
  "getStatusForTarget (Some (stats_getAllStatus (Some two_targets_store))) (tgt_id (target_row 2 1))
     = getTargetStatus (Some two_targets_store) (tgt_id (target_row 2 1))
   \<and> tc_badge (target_card (Some (stats_getAllStatus (Some two_targets_store))) (target_row 2 1))
     = online_badge (case getTargetStatus (Some two_targets_store) (tgt_id (target_row 2 1)) of
                       None \<Rightarrow> False | Some st \<Rightarrow> isOnline st)"
  by (rule targets_page_status_lookup [OF two_targets_wf])
     (simp add: query_simps router_eval)

text \<open>C26. Submitting the Add Target form after clearing a number field (here the
  timeout, which becomes \<open>parseInt("") = NaN\<close>) sends nothing that the router
  accepts: the store and the page state stay as they were, the dialog stays open.\<close>

theorem submit_cleared_number_field:
  "handleSubmit url_ok db now (st\<lparr>formData := onChange (Edit_timeout []) (formData st)\<rparr>)
   = (st\<lparr>formData := onChange (Edit_timeout []) (formData st)\<rparr>, db)"
  by (cases "fd_checkInterval (formData st)")
     (simp_all add: handleSubmit_def form_request_def zod_number_def parseInt10_def)

text \<open>C27. Submitting the form with a name and a valid URL and the other fields
  untouched asks \<open>createTarget\<close> for a target with the defaults 300 s, 10 s and
  200, method GET and the empty description stored as the empty string (not NULL);
  on success the dialog closes and the form is reset, on a database error nothing
  changes.\<close>

theorem submit_creates_target:
  assumes "name \<noteq> []" "url_ok url"
  shows "handleSubmit url_ok (Some s) now
           \<lparr>isOpen = True, formData = onChange (Edit_url url) (onChange (Edit_name name) initial_form)\<rparr>
         = (case createTarget (Some s) now
                   \<lparr>nt_name = name, nt_url = url, nt_description = Some [], nt_method = ''GET'',
                    nt_checkInterval = 300, nt_timeout = 10, nt_expectedStatusCode = 200\<rparr> of
              Inl e \<Rightarrow> (\<lparr>isOpen = True, formData = onChange (Edit_url url) (onChange (Edit_name name) initial_form)\<rparr>,
                        Some s)
            | Inr (h, s') \<Rightarrow> (targets_page_init, Some s'))"
  using assms
  by (simp add: handleSubmit_def form_request_def zod_number_def initial_form_def targets_create_def
      create_target_defaults_def targets_page_init_def split: sum.split prod.split)

theorem submit_creates_target_witness:
  "handleSubmit (\<lambda>u. u \<noteq> []) (Some two_targets_store) 5000
     \<lparr>isOpen = True, formData = onChange (Edit_url ''https://a.io'') (onChange (Edit_name ''api'') initial_form)\<rparr>
   = (targets_page_init, Some (two_targets_store\<lparr>targets := targets two_targets_store
        @ [mk_target 5000 \<lparr>nt_name = ''api'', nt_url = ''https://a.io'', nt_description = Some [],
                           nt_method = ''GET'', nt_checkInterval = 300, nt_timeout = 10,
                           nt_expectedStatusCode = 200\<rparr> 3], targets_ai := 4\<rparr>))"
proof -
  have "createTarget (Some two_targets_store) 5000
          \<lparr>nt_name = ''api'', nt_url = ''https://a.io'', nt_description = Some [], nt_method = ''GET'',
           nt_checkInterval = 300, nt_timeout = 10, nt_expectedStatusCode = 200\<rparr>
        = Inr (\<lparr>affectedRows = 1, insertId = 3\<rparr>, two_targets_store\<lparr>targets := targets two_targets_store
        @ [mk_target 5000 \<lparr>nt_name = ''api'', nt_url = ''https://a.io'', nt_description = Some [],
                           nt_method = ''GET'', nt_checkInterval = 300, nt_timeout = 10,
                           nt_expectedStatusCode = 200\<rparr> 3], targets_ai := 4\<rparr>)"
    by (simp add: createTarget_Inr target_row_error_def mk_target_def router_eval int_col_ok_def int32_max_def
        varchar_ok_def text_ok_def ts_ok_def ts_round_def)
  with submit_creates_target [of "''api''" "\<lambda>u. u \<noteq> []" "''https://a.io''" two_targets_store 5000]
  show ?thesis by simp
qed

text \<open>C28. A target's card on the Incidents page lists its ten most recent incidents,
  newest first, and says "n incident(s) recorded" with n at most 10 however many
  there are; the Resolve button appears exactly on the ongoing ones.\<close>

theorem incidents_card_latest_ten:
  assumes "TargetIncidents name (Loaded (incidents_getByTargetId (Some s) tid (Some 10))) = Incident_list name' n rows"
  shows "n = min 10 (length (filter (\<lambda>i. inc_targetId i = tid) (incidents s))) \<and> n = length rows
         \<and> sorted_wrt (\<lambda>a b. ie_startTime b \<le> ie_startTime a) rows
         \<and> (\<forall>r \<in> set rows. ie_resolve_button r \<longleftrightarrow> ie_badge r = ''Ongoing'')"
proof -
  let ?L = "take 10 (order_desc inc_startTime (filter (\<lambda>i. inc_targetId i = tid) (incidents s)))"
  have v: "n = length ?L" "rows = map incident_entry ?L"
    using assms by (auto simp: TargetIncidents_def incidents_getByTargetId_def getIncidentsByTargetId_def
        split: if_splits)
  have "sorted_desc inc_startTime ?L" by (rule sorted_desc_take [OF sorted_desc_order_desc])
  then have "sorted_wrt (\<lambda>a b. ie_startTime b \<le> ie_startTime a) rows"
    by (simp add: v(2) sorted_wrt_map sorted_desc_def incident_entry_def)
  then show ?thesis
    using v by (auto simp: incident_entry_def)
qed

theorem incidents_card_latest_ten_witness:
  "1 = min 10 (length (filter (\<lambda>i. inc_targetId i = 1) (incidents two_targets_store)))
   \<and> 1 = length [incident_entry (incident_row 1 1 1060000)]
   \<and> sorted_wrt (\<lambda>a b. ie_startTime b \<le> ie_startTime a) [incident_entry (incident_row 1 1 1060000)]
   \<and> ie_resolve_button (incident_entry (incident_row 1 1 1060000))"
proof -
  have h: "TargetIncidents ''service'' (Loaded (incidents_getByTargetId (Some two_targets_store) 1 (Some 10)))
           = Incident_list ''service'' 1 [incident_entry (incident_row 1 1 1060000)]"
    by (simp add: TargetIncidents_def query_simps router_eval)
  from incidents_card_latest_ten [OF h] show ?thesis
    by (simp add: incident_entry_def incident_row_def)
qed

text \<open>C31. The delete button of a Targets card removes the target row and nothing
  else: its checks, uptime rows and incidents stay in the store, and since the
  \<open>AUTO_INCREMENT\<close> counter does not move back, no later target takes over the id.\<close>

theorem delete_click_orphans:
  "\<exists>s'. delete_click (Some s) tid = Some s' \<and> tid \<notin> tgt_id ` set (targets s')
        \<and> checks s' = checks s \<and> incidents s' = incidents s \<and> history s' = history s
        \<and> targets_ai s' = targets_ai s"
  by (auto simp: delete_click_def targets_delete_def deleteTarget_def)

end
