(* ===== verification/SettingsPage.thy ===== *)
theory SettingsPage
  imports Layout
begin

text \<open>
  The Settings page (\<open>src/client/src/pages/Settings.tsx\<close>) and the two authentication
  stubs (\<open>src/client/src/_core/hooks/useAuth.ts\<close>, \<open>src/server/_core/oauth.ts\<close>).
  The page is a Radix \<open>Tabs\<close> with \<open>defaultValue="general"\<close>: the tab is the
  component's only state, and a \<open>TabsContent\<close> is mounted only while its tab is
  selected. The three inputs of the General tab are uncontrolled (\<open>defaultValue\<close>):
  what the user types lives in the mounted input and is gone when the tab unmounts.
  No button of the page has a handler, and nothing on it calls the server.
\<close>

datatype settings_tab = Tab_general | Tab_notifications | Tab_security | Tab_data

text \<open>The mounted state: the selected tab and the values of the General inputs
  (lines 47--70), which exist only while that tab is shown.\<close>

record settings_state =
  activeTab :: settings_tab
  serviceName :: string
  defaultInterval :: string
  defaultTimeout :: string

definition settings_init :: settings_state where
  "settings_init =
     \<lparr>activeTab = Tab_general, serviceName = ''Pulse Monitoring'', defaultInterval = ''300'',
      defaultTimeout = ''10''\<rparr>"

datatype settings_event =
  Select_tab settings_tab | Type_service_name string | Type_default_interval string
  | Type_default_timeout string | Click_button string

text \<open>A click on another \<open>TabsTrigger\<close> (lines 19--36) selects its tab; the General
  content unmounts or mounts afresh with its \<open>defaultValue\<close>s. Typing reaches an input
  only while the General tab is shown. Buttons (Save Changes, Configure, Regenerate,
  Export, Delete) have no \<open>onClick\<close>.\<close>

fun settings_step :: "settings_event \<Rightarrow> settings_state \<Rightarrow> settings_state" where
  "settings_step (Select_tab t) st =
     (if t = activeTab st then st else settings_init\<lparr>activeTab := t\<rparr>)"
| "settings_step (Type_service_name v) st =
     (if activeTab st = Tab_general then st\<lparr>serviceName := v\<rparr> else st)"
| "settings_step (Type_default_interval v) st =
     (if activeTab st = Tab_general then st\<lparr>defaultInterval := v\<rparr> else st)"
| "settings_step (Type_default_timeout v) st =
     (if activeTab st = Tab_general then st\<lparr>defaultTimeout := v\<rparr> else st)"
| "settings_step (Click_button b) st = st"

text \<open>What the selected tab shows (lines 38--189): its title and description, the
  labelled fields with their values, the rows of title and explanation, and the
  buttons. The API key field shows a fixed mask of 16 bullet characters (U+2022), written
  here with \<open>*\<close>.\<close>

record settings_panel =
  sp_title :: string
  sp_description :: string
  sp_fields :: "(string \<times> string) list"
  sp_rows :: "(string \<times> string) list"
  sp_buttons :: "string list"

definition settings_panel :: "settings_state \<Rightarrow> settings_panel" where
  "settings_panel st =
     (case activeTab st of
        Tab_general \<Rightarrow>
          \<lparr>sp_title = ''General Settings'', sp_description = ''Configure basic monitoring preferences'',
           sp_fields = [(''Service Name'', serviceName st), (''Default Check Interval (seconds)'', defaultInterval st),
                        (''Default Timeout (seconds)'', defaultTimeout st)],
           sp_rows = [], sp_buttons = [''Save Changes'']\<rparr>
      | Tab_notifications \<Rightarrow>
          \<lparr>sp_title = ''Notification Settings'', sp_description = ''Configure how you receive alerts'',
           sp_fields = [],
           sp_rows = [(''Email Notifications'', ''Receive alerts via email''),
                      (''Slack Integration'', ''Send alerts to Slack''),
                      (''Discord Integration'', ''Send alerts to Discord'')],
           sp_buttons = [''Configure'', ''Configure'', ''Configure'']\<rparr>
      | Tab_security \<Rightarrow>
          \<lparr>sp_title = ''Security Settings'', sp_description = ''Manage API keys and access control'',
           sp_fields = [(''API Key'', replicate 16 (CHR ''*''))],
           sp_rows = [(''Use this API key to integrate with external services'', [])],
           sp_buttons = [''Regenerate'', ''Save Changes'']\<rparr>
      | Tab_data \<Rightarrow>
          \<lparr>sp_title = ''Data Management'', sp_description = ''Manage your monitoring data'',
           sp_fields = [],
           sp_rows = [(''Data Retention'', ''Keep monitoring data for 30 days by default''),
                      (''Export Data'', ''Export all monitoring data as CSV''),
                      (''Delete All Data'', ''Permanently delete all monitoring data'')],
           sp_buttons = [''Configure'', ''Export'', ''Delete'']\<rparr>)"

subsection \<open>Authentication stubs\<close>

text \<open>\<open>useAuth(options)\<close> (useAuth.ts lines 8--24): a constant unauthenticated state;
  the options (\<open>redirectOnUnauthenticated\<close>, \<open>redirectPath\<close>) are ignored and
  \<open>refresh\<close>/\<open>logout\<close> resolve without effect.\<close>

record use_auth_options =
  redirectOnUnauthenticated :: "bool option"
  redirectPath :: "string option"

record auth_state =
  auth_user :: "unit option"
  auth_loading :: bool
  auth_error :: "string option"
  isAuthenticated :: bool

definition useAuth :: "use_auth_options option \<Rightarrow> auth_state" where
  "useAuth options = \<lparr>auth_user = None, auth_loading = False, auth_error = None, isAuthenticated = False\<rparr>"

text \<open>\<open>registerOAuthRoutes\<close> (oauth.ts lines 7--12): the one route it registers,
  \<open>GET /api/oauth/callback\<close>, answers 404 with a JSON error, whatever the request.\<close>

record http_response =
  res_status :: nat
  res_error :: string

definition oauth_callback :: "'req \<Rightarrow> http_response" where
  "oauth_callback req = \<lparr>res_status = 404, res_error = ''OAuth not available for this application''\<rparr>"

end
