(* ===== verification/Spec2Isabelle.thy ===== *)
theory Spec2Isabelle
  imports Invariants Pages SettingsPage
begin

text \<open>
  \<^bold>\<open>Pulse: a verification development.\<close>
  Pulse monitors HTTP endpoints ("targets"). Its repository holds three parts that talk
  to each other only through the tRPC router: the MySQL schema
  (\<open>src/drizzle/schema.ts\<close>), the server (\<open>src/server/db.ts\<close>, the data-access
  layer and the two derived reads; \<open>src/server/routers.ts\<close>, the procedures that
  validate input with zod and call db.ts), and the React dashboard
  (\<open>src/client/src/App.tsx\<close>, \<open>components/DashboardLayout.tsx\<close>,
  \<open>pages/Home.tsx\<close>, \<open>pages/Targets.tsx\<close>, \<open>pages/Incidents.tsx\<close>). The prober
  that produces check results and any scheduler are not in the repository: results
  arrive through the \<open>checks.create\<close> procedure.

  \<^bold>\<open>Theories and the code they model.\<close>
  \<^item> \<open>Prelude\<close>: \<open>ORDER BY ... DESC\<close> as a stable sort (\<open>order_desc\<close>), the
    first-failing column check (\<open>first_error\<close>), the collection \<open>query_simps\<close> of
    equations that evaluate reads, and the generic list lemmas.
  \<^item> \<open>Js\<close>: the ECMAScript built-ins the code uses: \<open>Math.round\<close>, \<open>toFixed(2)\<close>,
    \<open>parseInt(s, 10)\<close> and \<open>toString\<close> on a number type with NaN (\<open>jsnum\<close>),
    NaN-propagating \<open>Math.min\<close>/\<open>Math.max\<close>/\<open>+\<close>, truthiness, and React's
    \<open>x && <el/>\<close>.
  \<^item> \<open>Schema\<close>: the four tables as records (\<open>monitoring_target\<close>,
    \<open>monitoring_check\<close>, \<open>uptime_history\<close>, \<open>incident\<close>), the column limits of
    MySQL strict mode (32-bit \<open>INT\<close>, \<open>varchar\<close>/\<open>text\<close> lengths, \<open>decimal(5, 2)\<close>, \<open>TIMESTAMP\<close>
    rounding to the second and its 1970--2038 range), the store \<open>db_state\<close> with its
    \<open>AUTO_INCREMENT\<close> counters, the errors \<open>db_error\<close>, and the key invariant
    \<open>db_wf\<close>.
  \<^item> \<open>Store\<close>: \<open>INSERT\<close>, \<open>UPDATE ... WHERE\<close> and \<open>DELETE ... WHERE\<close> on one table
    (\<open>insert_row\<close>, \<open>update_rows\<close>, \<open>delete_rows\<close>).
  \<^item> \<open>Db\<close>: every exported function of db.ts by its name, as state passing
    \<open>db_state option \<Rightarrow> ... \<Rightarrow> db_error + (result_header \<times> db_state)\<close> for writes
    and a plain function for reads; \<open>None\<close> is the \<open>null\<close> handle of \<open>getDb\<close>.
  \<^item> \<open>Stats\<close>: \<open>calculateTargetUptime\<close> and \<open>getTargetStatus\<close>, with the abstract
    contract \<open>uptime_spec\<close> over the multiset of the window's rows.
  \<^item> \<open>Router\<close>: every procedure of \<open>appRouter\<close> (suffix \<open>_proc\<close> on
    \<open>targets.update\<close> only, to keep it apart from a record update), errors
    \<open>api_error\<close> (\<open>BAD_REQUEST\<close>, \<open>INTERNAL_SERVER_ERROR\<close>).
  \<^item> \<open>Api\<close>: the server as an inductive step relation \<open>api_step\<close> over the seven
    mutating procedures, and \<open>reachable\<close> stores from \<open>empty_db\<close>.
  \<^item> \<open>Invariants\<close>: runs of \<open>incidents.resolve\<close> steps.
  \<^item> \<open>Layout\<close>: wouter routing of App.tsx (\<open>app_route\<close>), the menu highlight and the
    sidebar width with its \<open>localStorage\<close> copy (\<open>mount_layout\<close>,
    \<open>handleMouseDown\<close>, \<open>handleMouseMove\<close>).
  \<^item> \<open>Pages\<close>: what Home, Targets and Incidents render from their queries
    (\<open>'a query\<close>: loading, failed, loaded) and the Targets page's form, dialog and
    delete button, which call the router.
  \<^item> \<open>SettingsPage\<close>: the Settings page as the state machine of its Radix tabs
    (\<open>settings_step\<close>) and the content of each tab (\<open>settings_panel\<close>); the
    constant \<open>useAuth\<close> hook and the OAuth callback stub (\<open>oauth_callback\<close>).

  \<^bold>\<open>What is proved.\<close>
  C1--C4 (\<open>Api\<close>): the two facts that show the spec's incident state machine is
  absent (\<open>incidents.create\<close> succeeds and adds an ongoing incident even beside
  another one; a recorded check never touches incidents), and, by rule induction over
  all runs, that an incident is ongoing exactly when it has no end time and that checks
  and history are append-only.
  C5--C9 (\<open>Stats\<close>): the uptime statistics refine their multiset contract (row order
  is irrelevant) and stay within bounds, they round to 100.00 exactly when
  \<open>19999 * total \<le> 20000 * successful\<close>; the status is absent exactly without checks
  and is otherwise that of a check with the greatest \<open>checkedAt\<close>.
  C10--C19 (\<open>Router\<close>): the behaviour of the procedures on each branch, errors
  included: \<open>getAllStatus\<close> drops targets without checks, deactivation keeps
  incidents, everything without a database, \<open>incidents.resolve\<close> on unknown ids and
  its unconditional success, an empty update, the 2038 limit, history written as plain
  inserts that accept any totals the columns can hold.
  C20--C22 (\<open>Layout\<close>): the width a drag leaves, the stored width round trip, and the
  NaN that no drag repairs. C23--C28 (\<open>Pages\<close>): the Home counters, the card of a
  timed-out check, the Targets page's status lookup (refinement of
  \<open>getTargetStatus\<close>), form submission with a cleared field and with defaults, the
  Incidents card. C29 (below): card links lead to Not Found. C30 (\<open>Invariants\<close>):
  from any store, \<open>incidents.resolve\<close> calls reach a store with no ongoing incident.
  C31 (\<open>Pages\<close>): deleting a target leaves its checks, history and incidents behind.
  C32 (\<open>Router\<close>): \<open>checks.getRecent\<close> is exactly the window, newest first.

  \<^bold>\<open>Bounds and termination.\<close> No fuel is needed: every loop of the code is a
  \<open>map\<close>, \<open>filter\<close>, \<open>fold\<close> or sort over a finite list, and the one recursive
  helper (\<open>nat_to_dec\<close>) is a \<open>fun\<close> with its termination proof. Integers are
  unbounded in the model and the code's limits are written out where the code meets
  them: \<open>INT\<close> columns and \<open>AUTO_INCREMENT\<close> counters at \<open>2^31 - 1\<close>
  (\<open>int32_max\<close>), \<open>TIMESTAMP\<close> values in \<open>[1, 2^31 - 1]\<close> seconds after rounding.

  \<^bold>\<open>Modelling choices.\<close> JavaScript numbers are exact rationals and integers, not
  doubles (they differ only on exact rounding boundaries); numeric inputs are integers;
  zod's \<open>.url()\<close> is a parameter \<open>url_ok\<close>; the clock is one value \<open>now\<close> per
  call; each procedure call is one atomic step (the code has no transaction spanning
  calls); ties of \<open>ORDER BY ... DESC\<close>, which MySQL leaves open, are kept in table
  order, and no property needs that choice: C9, C28 and C32 are stated for any order of
  equal keys, C24 assumes no tie, and C23 and C25 compare reads that share the same
  \<open>ORDER BY\<close>; mysql2 reports matched rows as \<open>affectedRows\<close>;
  \<open>ON UPDATE CURRENT_TIMESTAMP\<close> fires only on rows a statement changes, and
  \<open>NOW()\<close> defaults keep the second (\<open>sql_now\<close>); \<open>TIMESTAMP\<close> values are
  read in a UTC session time zone; the \<open>AUTO_INCREMENT\<close> counter survives a restart
  (MySQL 8); the \<open>limit\<close> and \<open>hoursBack\<close> inputs are taken as natural numbers and
  integers, so the MySQL error of a negative or fractional \<open>LIMIT\<close> is not modelled;
  a read with a database handle always answers (lost connections are not modelled);
  the sidebar's pointer positions are integers.

  \<^bold>\<open>Not modelled.\<close> The incident state machine and the rollup aggregator of the
  spec (sections 4.2, 4.3): the code does not implement them, which C2 and C18 show.
  Theme and toast providers, the error boundary, the \<open>NotFound\<close> page and the UI
  component library (not under \<open>src/\<close>), date formatting with
  \<open>toLocaleString\<close>, the HTTP transport of tRPC, and the prober and scheduler the
  spec names, which are not in the repository.
\<close>

text \<open>C29. Every card of the Home page and of the Targets page links to
  \<open>/targets/<id>\<close>, and the router has no route for it: whatever the target, a
  click on its card opens the Not Found page inside the dashboard layout.\<close>

theorem card_links_not_found:
  "app_route (card_href (status_card st)) = (True, Not_found)
   \<and> app_route (tc_href (target_card sts t)) = (True, Not_found)"
proof -
  have "app_route (''/targets/'' @ js_int_to_string i) = (True, Not_found)" for i
    by (rule app_route_target_link) simp
  then show ?thesis by (simp add: status_card_def target_card_def Let_def)
qed

end
